theory Spec2Isabelle
  imports Main "HOL-Library.Word"
begin

section \<open>The Go runtime and standard library, as far as the package calls it\<close>

text \<open>
  The package \<open>wallex\<close> is glue over \<open>encoding/json\<close>, \<open>strconv\<close>, \<open>fmt\<close>, \<open>net/http\<close>,
  \<open>net/url\<close> and \<open>os\<close>. None of that code is part of the package. Library behaviour that
  the package's own control flow depends on is written out below; everything else is a
  field of a record of library functions that every definition takes as its first argument
  and over which the theorems are universally quantified. Where a property depends on what
  \<open>strconv\<close> and \<open>fmt\<close> do with particular strings, a reference for the two functions is
  written out as well.
\<close>

type_synonym bytes = string

text \<open>A \<open>float64\<close> is its IEEE-754 binary64 bit pattern; \<open>0\<close> is positive zero.\<close>

type_synonym float64 = "64 word"

type_synonym int64 = "64 word"

text \<open>An \<open>error\<close> value produced inside a library, identified by its message.\<close>

datatype go_error = GoError string

text \<open>
  A JSON text as \<open>encoding/json\<close> reads it. A number carries its literal, a string its
  decoded contents. Input bytes that are not a JSON text are \<open>None\<close> of \<open>json option\<close>.
\<close>

datatype json =
    JNull
  | JBool bool
  | JNumber string
  | JString string
  | JArray "json list"
  | JObject "(string \<times> json) list"

text \<open>
  The two library functions behind \<open>Number\<close>: \<open>strconv.ParseFloat(s, 64)\<close>, which returns
  a value together with an error (the value is \<open>0\<close> on a syntax error and an infinity on a
  range error), and \<open>fmt.Sprintf("%f", f)\<close>.
\<close>

record strconv =
  atof64 :: "string \<Rightarrow> float64 \<times> go_error option"
  Sprintf_f :: "float64 \<Rightarrow> string"

text \<open>
  \<open>strconv.ParseFloat\<close>: on the empty string neither the scan for \<open>inf\<close>/\<open>nan\<close> nor the
  scan for digits reads anything, and the result is \<open>0\<close> with a syntax error. Every other
  input is left to the library.
\<close>

definition ErrSyntax :: go_error where
  "ErrSyntax = GoError ''invalid syntax''"

definition ParseFloat :: "strconv \<Rightarrow> string \<Rightarrow> float64 \<times> go_error option" where
  "ParseFloat L s = (if s = [] then (0, Some ErrSyntax) else atof64 L s)"

text \<open>
  \<open>json.Unmarshal(data, &s)\<close> for a \<open>string\<close> variable holding \<open>s0\<close>: a JSON string is
  stored, \<open>null\<close> leaves the variable alone and is no error, any other value is an
  \<open>UnmarshalTypeError\<close>, and bytes that are no JSON text are a \<open>SyntaxError\<close>.
\<close>

definition ErrUnmarshalType :: go_error where
  "ErrUnmarshalType = GoError ''json: cannot unmarshal value into Go value''"

definition ErrJSONSyntax :: go_error where
  "ErrJSONSyntax = GoError ''json: invalid character''"

fun Unmarshal_string :: "json option \<Rightarrow> string \<Rightarrow> string \<times> go_error option" where
  "Unmarshal_string None s0 = (s0, Some ErrJSONSyntax)"
| "Unmarshal_string (Some (JString s)) s0 = (s, None)"
| "Unmarshal_string (Some JNull) s0 = (s0, None)"
| "Unmarshal_string (Some _) s0 = (s0, Some ErrUnmarshalType)"

text \<open>
  \<open>json.Unmarshal(data, &f)\<close> for a \<open>float64\<close> variable holding \<open>f0\<close>: the literal of a
  JSON number goes through \<open>strconv.ParseFloat\<close>, whose error (a literal out of range)
  becomes an \<open>UnmarshalTypeError\<close>; \<open>null\<close> again has no effect.
\<close>

fun Unmarshal_float64 :: "strconv \<Rightarrow> json option \<Rightarrow> float64 \<Rightarrow> float64 \<times> go_error option" where
  "Unmarshal_float64 L None f0 = (f0, Some ErrJSONSyntax)"
| "Unmarshal_float64 L (Some (JNumber lit)) f0 =
     (case ParseFloat L lit of
        (f, None) \<Rightarrow> (f, None)
      | (_, Some _) \<Rightarrow> (f0, Some ErrUnmarshalType))"
| "Unmarshal_float64 L (Some JNull) f0 = (f0, None)"
| "Unmarshal_float64 L (Some _) f0 = (f0, Some ErrUnmarshalType)"

section \<open>Number\<close>

text \<open>\<open>type Number string\<close>.\<close>

type_synonym Number = string

definition IsUndefined :: "Number \<Rightarrow> bool" where
  "IsUndefined n = (n = [])"

definition Float :: "strconv \<Rightarrow> Number \<Rightarrow> float64" where
  "Float L n = fst (ParseFloat L n)"

text \<open>
  \<open>UnmarshalJSON\<close> overwrites the receiver \<open>*n\<close> (which held \<open>n0\<close>) and returns an error
  value; the model returns the new receiver and the error.
\<close>

definition UnmarshalJSON :: "strconv \<Rightarrow> Number \<Rightarrow> json option \<Rightarrow> Number \<times> go_error option" where
  "UnmarshalJSON L n0 data =
     (let n = [] in
      case Unmarshal_string data [] of
        (s, None) \<Rightarrow>
          (case ParseFloat L s of
             (_, None) \<Rightarrow> (s, None)
           | (_, Some _) \<Rightarrow> (n, None))
      | (_, Some _) \<Rightarrow>
          (case Unmarshal_float64 L data 0 of
             (f, None) \<Rightarrow> (Sprintf_f L f, None)
           | (_, Some _) \<Rightarrow> (n, None)))"


section \<open>A reference for \<open>strconv.ParseFloat\<close> and \<open>fmt.Sprintf("%f")\<close>\<close>

text \<open>
  What the two library functions do on decimal notation, written out from their
  documentation, as one value of \<open>strconv\<close>. It is used where a property of \<open>Number\<close>
  depends on what the library does with particular strings. Hexadecimal notation and
  underscores between digits are not written out: a string that holds \<open>x\<close>, \<open>X\<close> or \<open>_\<close>
  is left to a parameter.
\<close>

text \<open>Decimal digits as bytes, and the value of a string of digits.\<close>

definition is_digit :: "char \<Rightarrow> bool" where
  "is_digit c = (48 \<le> (of_char c :: nat) \<and> (of_char c :: nat) \<le> 57)"

definition digit_val :: "char \<Rightarrow> nat" where
  "digit_val c = of_char c - 48"

definition digit_char :: "nat \<Rightarrow> char" where
  "digit_char d = char_of (48 + d)"

definition nat_of_digits :: "string \<Rightarrow> nat" where
  "nat_of_digits ds = foldl (\<lambda>a c. 10 * a + digit_val c) 0 ds"

text \<open>
  The exponent of a literal is accumulated only while it is below 10000, as the library's
  scanner does.
\<close>

definition exp_of_digits :: "string \<Rightarrow> nat" where
  "exp_of_digits ds = foldl (\<lambda>e c. if e < 10000 then e * 10 + digit_val c else e) 0 ds"

text \<open>The decimal digits of a number, and the same padded with zeros to six places.\<close>

function digits_of_nat :: "nat \<Rightarrow> string" where
  "digits_of_nat n = (if n < 10 then [digit_char n] else digits_of_nat (n div 10) @ [digit_char (n mod 10)])"
  by pat_completeness auto
termination
  by (relation "measure id") auto

declare digits_of_nat.simps [simp del]

definition pad6 :: "nat \<Rightarrow> string" where
  "pad6 n = replicate (6 - length (digits_of_nat n)) (CHR ''0'') @ digits_of_nat n"

text \<open>
  Rounding of the quotient \<open>n / d\<close> to the nearest number, a tie going to the even one.
\<close>

definition round_half_even :: "nat \<Rightarrow> nat \<Rightarrow> nat" where
  "round_half_even n d =
     (let q = n div d; r = n mod d
      in if 2 * r < d then q else if d < 2 * r then q + 1 else if even q then q else q + 1)"

text \<open>The number of binary digits of a number.\<close>

function bit_len :: "nat \<Rightarrow> nat" where
  "bit_len n = (if n = 0 then 0 else Suc (bit_len (n div 2)))"
  by pat_completeness auto
termination
  by (relation "measure id") auto

declare bit_len.simps [simp del]

text \<open>
  The bit patterns of binary64: a sign bit, eleven bits of exponent and 52 bits of
  fraction; \<open>math.Inf\<close> and \<open>math.NaN\<close>.
\<close>

definition float64_Inf :: "bool \<Rightarrow> float64" where
  "float64_Inf neg = (if neg then 0xFFF0000000000000 else 0x7FF0000000000000)"

definition float64_NaN :: float64 where
  "float64_NaN = 0x7FF8000000000001"

definition float64_bits :: "bool \<Rightarrow> nat \<Rightarrow> nat \<Rightarrow> float64" where
  "float64_bits neg ex frac =
     (if neg then 0x8000000000000000 else 0) + push_bit 52 (of_nat ex) + of_nat frac"

text \<open>
  The nearest \<open>float64\<close> to the positive quotient \<open>num / den\<close>: with \<open>e\<close> the least
  exponent for which the quotient is below \<open>2 ^ 53 * 2 ^ (e - 1074)\<close>, the significand is
  the quotient in units of \<open>2 ^ (e - 1074)\<close>, rounded. A quotient from
  \<open>2 ^ 1024 - 2 ^ 970\<close> on rounds beyond the largest \<open>float64\<close>.
\<close>

definition overflow_threshold :: nat where
  "overflow_threshold = 2 ^ 1024 - 2 ^ 970"

definition round_float64 :: "bool \<Rightarrow> nat \<Rightarrow> nat \<Rightarrow> float64" where
  "round_float64 neg num den =
     (let e = bit_len ((num * 2 ^ 1074) div (den * 2 ^ 53));
          m = round_half_even (num * 2 ^ 1074) (den * 2 ^ e);
          (m, e) = (if m = 2 ^ 53 then (2 ^ 52, e + 1) else (m, e))
      in if m < 2 ^ 52 then float64_bits neg 0 m
         else float64_bits neg (e + 1) (m - 2 ^ 52))"

text \<open>
  The scan of \<open>strconv\<close>: an optional sign; \<open>inf\<close>, \<open>infinity\<close> (with or without sign) and
  \<open>nan\<close> in any mix of cases; otherwise digits with at most one point and at least one
  digit, and an optional exponent (\<open>e\<close> or \<open>E\<close>, an optional sign, at least one digit),
  with nothing after it. \<open>readFloat\<close> returns the sign, the digits of the mantissa as a
  number, how many of them follow the point, and the exponent.
\<close>

definition eq_fold :: "char \<Rightarrow> char \<Rightarrow> bool" where
  "eq_fold c p =
     ((if 65 \<le> (of_char c :: nat) \<and> (of_char c :: nat) \<le> 90 then of_char c + 32 else of_char c)
        = (of_char p :: nat))"

definition read_sign :: "string \<Rightarrow> bool \<times> string" where
  "read_sign s =
     (case s of
        [] \<Rightarrow> (False, s)
      | c # r \<Rightarrow> if c = CHR ''+'' then (False, r) else if c = CHR ''-'' then (True, r) else (False, s))"

definition special :: "string \<Rightarrow> float64 option" where
  "special s =
     (let (neg, t) = read_sign s
      in if list_all2 eq_fold t ''inf'' \<or> list_all2 eq_fold t ''infinity'' then Some (float64_Inf neg)
         else if list_all2 eq_fold s ''nan'' then Some float64_NaN
         else None)"

definition readFloat :: "string \<Rightarrow> (bool \<times> nat \<times> nat \<times> int) option" where
  "readFloat s =
     (let (neg, s1) = read_sign s;
          ip = takeWhile is_digit s1;
          s2 = dropWhile is_digit s1;
          (fp, s3) = (case s2 of
                        [] \<Rightarrow> ([], s2)
                      | c # r \<Rightarrow> if c = CHR ''.'' then (takeWhile is_digit r, dropWhile is_digit r)
                                 else ([], s2))
      in if ip = [] \<and> fp = [] then None
         else case s3 of
                [] \<Rightarrow> Some (neg, nat_of_digits (ip @ fp), length fp, 0)
              | c # r \<Rightarrow>
                  if c = CHR ''e'' \<or> c = CHR ''E'' then
                    (let (eneg, s4) = read_sign r;
                         ed = takeWhile is_digit s4
                     in if ed = [] \<or> dropWhile is_digit s4 \<noteq> [] then None
                        else Some (neg, nat_of_digits (ip @ fp), length fp,
                                   if eneg then - int (exp_of_digits ed) else int (exp_of_digits ed)))
                  else None)"

text \<open>
  \<open>strconv.ParseFloat(s, 64)\<close> on a non-empty string: the value of a special name; for a
  number the nearest \<open>float64\<close>, or an infinity and a range error if that is beyond the
  largest one; \<open>0\<close> and a syntax error for anything else.
\<close>

definition ErrRange :: go_error where
  "ErrRange = GoError ''value out of range''"

definition go_atof64 ::
  "(string \<Rightarrow> float64 \<times> go_error option) \<Rightarrow> string \<Rightarrow> float64 \<times> go_error option" where
  "go_atof64 other s =
     (if \<exists>c \<in> set s. c = CHR ''_'' \<or> c = CHR ''x'' \<or> c = CHR ''X'' then other s
      else case special s of
             Some f \<Rightarrow> (f, None)
           | None \<Rightarrow>
               (case readFloat s of
                  None \<Rightarrow> (0, Some ErrSyntax)
                | Some (neg, mant, nfrac, e) \<Rightarrow>
                    (let num = (if int nfrac \<le> e then mant * 10 ^ nat (e - int nfrac) else mant);
                         den = (if int nfrac \<le> e then 1 else 10 ^ nat (int nfrac - e))
                     in if overflow_threshold * den \<le> num then (float64_Inf neg, Some ErrRange)
                        else (round_float64 neg num den, None))))"

text \<open>
  \<open>fmt.Sprintf("%f", f)\<close>: \<open>NaN\<close>, \<open>+Inf\<close> or \<open>-Inf\<close> for a value that is no number;
  otherwise the exact value of \<open>f\<close> rounded to six decimal places, with a minus sign when
  the sign bit is set.
\<close>

definition go_Sprintf_f :: "float64 \<Rightarrow> string" where
  "go_Sprintf_f f =
     (let neg = bit f 63;
          ex = unat (take_bit 11 (drop_bit 52 f));
          frac = unat (take_bit 52 f)
      in if ex = 2047 then (if frac \<noteq> 0 then ''NaN'' else if neg then ''-Inf'' else ''+Inf'')
         else
           (let m = (if ex = 0 then frac else 2 ^ 52 + frac);
                e = (if ex = 0 then 0 else ex - 1);
                q = round_half_even (m * 2 ^ e * 10 ^ 6) (2 ^ 1074)
            in (if neg then ''-'' else []) @ digits_of_nat (q div 10 ^ 6) @ ''.'' @ pad6 (q mod 10 ^ 6)))"

definition go_strconv :: "(string \<Rightarrow> float64 \<times> go_error option) \<Rightarrow> strconv" where
  "go_strconv other = \<lparr>atof64 = go_atof64 other, Sprintf_f = go_Sprintf_f\<rparr>"

section \<open>Service errors\<close>

text \<open>
  \<open>type Error struct { Message string; Cause error }\<close>. The package hands out pointers to
  \<open>Error\<close>: six are allocated once, in package-level variables, and \<open>wrapRequestError\<close>
  allocates a new one at every call. A value of the datatype is such a pointer; \<open>Message\<close>
  and \<open>Cause\<close> read the fields behind it.
\<close>

datatype Error =
    ErrMissingAPIKey
  | ErrBadRequest
  | ErrUnauthorized
  | ErrForbidden
  | ErrNotFound
  | ErrUnknown
  | RequestFailed go_error

fun Message :: "Error \<Rightarrow> string" where
  "Message ErrMissingAPIKey = ''missing api key''"
| "Message ErrBadRequest = ''bad request''"
| "Message ErrUnauthorized = ''unauthorized''"
| "Message ErrForbidden = ''access forbidden''"
| "Message ErrNotFound = ''resource not found''"
| "Message ErrUnknown = ''unknown error''"
| "Message (RequestFailed err) = ''request failed''"

fun Cause :: "Error \<Rightarrow> go_error option" where
  "Cause (RequestFailed err) = Some err"
| "Cause _ = None"

text \<open>The method \<open>Error\<close> of \<open>*Error\<close>, with the cause printed as its message.\<close>

definition Error_Error :: "Error \<Rightarrow> string" where
  "Error_Error e =
     (case Cause e of
        Some (GoError msg) \<Rightarrow> ''wallex: '' @ Message e @ '': '' @ msg
      | None \<Rightarrow> ''wallex: '' @ Message e)"

definition wrapRequestError :: "go_error \<Rightarrow> Error" where
  "wrapRequestError err = RequestFailed err"

definition StatusOK :: int where "StatusOK = 200"
definition StatusBadRequest :: int where "StatusBadRequest = 400"
definition StatusUnauthorized :: int where "StatusUnauthorized = 401"
definition StatusForbidden :: int where "StatusForbidden = 403"
definition StatusNotFound :: int where "StatusNotFound = 404"

definition errNonOKResponse :: "int \<Rightarrow> Error" where
  "errNonOKResponse code =
     (if code = StatusBadRequest then ErrBadRequest
      else if code = StatusUnauthorized then ErrUnauthorized
      else if code = StatusForbidden then ErrForbidden
      else if code = StatusNotFound then ErrNotFound
      else ErrUnknown)"

section \<open>Response shapes\<close>

text \<open>\<open>time.Time\<close>, as the seconds and nanoseconds that \<open>time.Unix\<close> takes.\<close>

datatype Time = Unix (sec: int64) (nsec: int64)

record Direction =
  Sell :: int
  Buy :: int

record MarketStats =
  BidPrice :: Number
  AskPrice :: Number
  Change24H :: Number
  Change7D :: Number
  Volume24H :: Number
  Volume7D :: Number
  QuoteVolume24H :: Number
  HighPrice24H :: Number
  LowPrice24H :: Number
  LastPrice :: Number
  LastQty :: Number
  LastTradeSide :: string
  BidVolume :: Number
  AskVolume :: Number
  BidCount :: Number
  AskCount :: Number
  Direction :: Direction

record Market =
  Symbol :: string
  BaseAsset :: string
  BaseAssetPrecision :: int
  QuoteAsset :: string
  QuotePrecision :: int
  FarsiName :: string
  FarsiBaseAsset :: string
  FarsiQuoteAsset :: string
  StepSize :: int
  TickSize :: int
  MinQty :: Number
  MinNotional :: Number
  Stats :: MarketStats
  CreatedAt :: Time

record Candle =
  Timestamp :: Time
  Open :: Number
  High :: Number
  Low :: Number
  Close :: Number
  Volume :: Number

record Balance =
  Asset :: string
  FaName :: string
  Fiat :: bool
  Value :: Number
  Locked :: Number

record OrderParams =
  Symbol :: string
  Type :: string
  Side :: string
  Price :: Number
  Quantity :: Number
  ClientID :: string

text \<open>
  The remaining response structs are only passed from the decoder to the caller: no
  function of the package reads or writes a field of them.
\<close>

typedecl Currency
typedecl MarketOrder
typedecl MarketTrade
typedecl Profile
typedecl FeeLevel
typedecl BankingCard
typedecl BankAccount
typedecl Order
typedecl Trade

text \<open>
  The anonymous struct that \<open>Candles\<close> decodes the body into. A slice is a list, and the
  \<open>nil\<close> slice of a missing key is the empty list.
\<close>

record udf_history =
  hist_T :: "int64 list"
  hist_O :: "string list"
  hist_H :: "string list"
  hist_L :: "string list"
  hist_C :: "string list"
  hist_V :: "string list"

section \<open>HTTP\<close>

text \<open>
  A \<open>*http.Client\<close> is \<open>nil\<close> (\<open>None\<close>) or points to a client: \<open>http.DefaultClient\<close>, which
  the package-level \<open>http.Get\<close> uses, or one the caller made.
\<close>

datatype http_Client = DefaultClient | CustomClient nat

text \<open>
  A request body is the JSON document that \<open>json.Marshal\<close> produced, or \<open>None\<close> for a
  \<open>nil\<close> body.
\<close>

record Request =
  Method :: string
  URL :: string
  Header :: "(string \<times> string) list"
  ReqBody :: "json option"

record Response =
  StatusCode :: int
  Body :: bytes

text \<open>A panic of the Go runtime ends the call without a return value.\<close>

datatype panic = NilPointerDereference | IndexOutOfRange nat nat

datatype 'a outcome = Panic panic | Return 'a

text \<open>One use of a transport: the client it went through and the request sent.\<close>

type_synonym call = "http_Client \<times> Request"

text \<open>
  What the package takes from its surroundings: the process environment, \<open>net/url\<close>
  (parsing a URL, which \<open>http.NewRequest\<close> may fail on, and encoding a query),
  \<open>strconv.FormatInt\<close>, the exchange of a request for a response or a transport error by
  a client's \<open>Do\<close>, the order in which the runtime walks the map of markets, and
  \<open>json.NewDecoder(body).Decode(&result)\<close> for each response shape, yielding the fields
  of \<open>result\<close> that the method returns, and the coercion of a string to valid UTF-8 that
  \<open>json.Marshal\<close> applies (bytes that are not valid UTF-8 become U+FFFD).
\<close>

record world =
  Getenv :: "string \<Rightarrow> string"
  url_Parse :: "string \<Rightarrow> go_error option"
  Values_Encode :: "(string \<times> string) list \<Rightarrow> string"
  FormatInt :: "int64 \<Rightarrow> nat \<Rightarrow> string"
  Do :: "http_Client \<Rightarrow> Request \<Rightarrow> go_error + Response"
  range_Symbols :: "(string \<rightharpoonup> Market option) \<Rightarrow> (string \<times> Market option) list"
  Decode_Markets :: "bytes \<Rightarrow> go_error + (string \<rightharpoonup> Market option)"
  Decode_Currencies :: "bytes \<Rightarrow> go_error + Currency option list"
  Decode_MarketOrders :: "bytes \<Rightarrow> go_error + (MarketOrder option list \<times> MarketOrder option list)"
  Decode_MarketTrades :: "bytes \<Rightarrow> go_error + MarketTrade option list"
  Decode_Candles :: "bytes \<Rightarrow> go_error + udf_history"
  Decode_Profile :: "bytes \<Rightarrow> go_error + Profile option"
  Decode_Balances :: "bytes \<Rightarrow> go_error + (string \<rightharpoonup> Balance option)"
  Decode_FeeLevels :: "bytes \<Rightarrow> go_error + (string \<rightharpoonup> FeeLevel option)"
  Decode_BankingCards :: "bytes \<Rightarrow> go_error + BankingCard option list"
  Decode_BankAccounts :: "bytes \<Rightarrow> go_error + BankAccount option list"
  Decode_Order :: "bytes \<Rightarrow> go_error + Order option"
  Decode_OpenOrders :: "bytes \<Rightarrow> go_error + Order option list"
  Decode_Trades :: "bytes \<Rightarrow> go_error + Trade option list"
  ToValidUTF8 :: "string \<Rightarrow> string"

definition MethodGet :: string where "MethodGet = ''GET''"
definition MethodPost :: string where "MethodPost = ''POST''"
definition MethodDelete :: string where "MethodDelete = ''DELETE''"

text \<open>
  \<open>http.NewRequest\<close> fails when the URL does not parse (the three methods used are valid)
  and otherwise returns a request without headers.
\<close>

definition NewRequest :: "world \<Rightarrow> string \<Rightarrow> string \<Rightarrow> json option \<Rightarrow> go_error + Request" where
  "NewRequest w method url body =
     (case url_Parse w url of
        Some err \<Rightarrow> Inl err
      | None \<Rightarrow> Inr \<lparr>Method = method, URL = url, Header = [], ReqBody = body\<rparr>)"

text \<open>
  \<open>req.Header.Add(key, value)\<close>. The header is kept as the pairs added, under the key as
  the caller wrote it (\<open>net/http\<close> stores the key in its canonical capitalisation; the
  names of HTTP headers do not distinguish case).
\<close>

definition Header_Add :: "Request \<Rightarrow> string \<Rightarrow> string \<Rightarrow> Request" where
  "Header_Add req key v = req\<lparr>Header := Header req @ [(key, v)]\<rparr>"

text \<open>
  \<open>(*http.Client).Do\<close>: a \<open>nil\<close> receiver panics when its fields are read, before
  anything is sent. \<open>(*http.Client).Get\<close> builds the request first. Each returns the
  uses of a transport it made.
\<close>

definition Client_Do ::
  "world \<Rightarrow> http_Client option \<Rightarrow> Request \<Rightarrow> (go_error + Response) outcome \<times> call list" where
  "Client_Do w hc req =
     (case hc of
        None \<Rightarrow> (Panic NilPointerDereference, [])
      | Some h \<Rightarrow> (Return (Do w h req), [(h, req)]))"

definition Client_Get ::
  "world \<Rightarrow> http_Client option \<Rightarrow> string \<Rightarrow> (go_error + Response) outcome \<times> call list" where
  "Client_Get w hc url =
     (case NewRequest w MethodGet url None of
        Inl err \<Rightarrow> (Return (Inl err), [])
      | Inr req \<Rightarrow> Client_Do w hc req)"

definition http_Get :: "world \<Rightarrow> string \<Rightarrow> (go_error + Response) outcome \<times> call list" where
  "http_Get w url = Client_Get w (Some DefaultClient) url"

text \<open>\<open>url.Values\<close>, as the pairs added so far.\<close>

definition Values_Add :: "(string \<times> string) list \<Rightarrow> string \<Rightarrow> string \<Rightarrow> (string \<times> string) list" where
  "Values_Add query key v = query @ [(key, v)]"

section \<open>Client\<close>

definition baseURL :: string where "baseURL = ''https://api.wallex.ir''"
definition apiKeyHeader :: string where "apiKeyHeader = ''x-api-key''"

record Client =
  httpClient :: "http_Client option"
  apiKey :: string

record ClientOptions =
  APIKey :: string
  HTTPClient :: "http_Client option"

definition New :: "world \<Rightarrow> ClientOptions \<Rightarrow> Client" where
  "New w opt =
     (let c = \<lparr>httpClient = None, apiKey = []\<rparr>;
          c = (if APIKey opt = [] then c\<lparr>apiKey := Getenv w ''WALLEX_API_KEY''\<rparr> else c);
          c = (if HTTPClient opt \<noteq> None then c\<lparr>httpClient := HTTPClient opt\<rparr>
               else c\<lparr>httpClient := Some DefaultClient\<rparr>)
      in c)"


section \<open>Public endpoints\<close>

text \<open>
  Every method returns what the Go method returns (\<open>Inl\<close> the error, with a \<open>nil\<close> value,
  or \<open>Inr\<close> the value, with a \<open>nil\<close> error) or panics, together with the uses of a
  transport made on the way.
\<close>

definition Markets ::
  "world \<Rightarrow> Client \<Rightarrow> (Error + Market option list) outcome \<times> call list" where
  "Markets w c =
     (case Client_Get w (httpClient c) (baseURL @ ''/v1/markets'') of
        (Panic pn, tr) \<Rightarrow> (Panic pn, tr)
      | (Return (Inl err), tr) \<Rightarrow> (Return (Inl (wrapRequestError err)), tr)
      | (Return (Inr resp), tr) \<Rightarrow>
          if StatusCode resp \<noteq> StatusOK then (Return (Inl (errNonOKResponse (StatusCode resp))), tr)
          else (case Decode_Markets w (Body resp) of
                  Inl err \<Rightarrow> (Return (Inl (wrapRequestError err)), tr)
                | Inr result \<Rightarrow> (Return (Inr (map snd (range_Symbols w result))), tr)))"

definition Currencies ::
  "world \<Rightarrow> Client \<Rightarrow> (Error + Currency option list) outcome \<times> call list" where
  "Currencies w c =
     (case Client_Get w (httpClient c) (baseURL @ ''/v1/currencies/stats'') of
        (Panic pn, tr) \<Rightarrow> (Panic pn, tr)
      | (Return (Inl err), tr) \<Rightarrow> (Return (Inl (wrapRequestError err)), tr)
      | (Return (Inr resp), tr) \<Rightarrow>
          if StatusCode resp \<noteq> StatusOK then (Return (Inl (errNonOKResponse (StatusCode resp))), tr)
          else (case Decode_Currencies w (Body resp) of
                  Inl err \<Rightarrow> (Return (Inl (wrapRequestError err)), tr)
                | Inr result \<Rightarrow> (Return (Inr result), tr)))"

definition MarketOrders ::
  "world \<Rightarrow> Client \<Rightarrow> string \<Rightarrow>
     (Error + MarketOrder option list \<times> MarketOrder option list) outcome \<times> call list" where
  "MarketOrders w c symbol =
     (let query = [];
          query = Values_Add query ''symbol'' symbol
      in case Client_Get w (httpClient c) (baseURL @ ''/v1/depth?'' @ Values_Encode w query) of
           (Panic pn, tr) \<Rightarrow> (Panic pn, tr)
         | (Return (Inl err), tr) \<Rightarrow> (Return (Inl (wrapRequestError err)), tr)
         | (Return (Inr resp), tr) \<Rightarrow>
             if StatusCode resp \<noteq> StatusOK then (Return (Inl (errNonOKResponse (StatusCode resp))), tr)
             else (case Decode_MarketOrders w (Body resp) of
                     Inl err \<Rightarrow> (Return (Inl (wrapRequestError err)), tr)
                   | Inr result \<Rightarrow> (Return (Inr result), tr)))"

definition MarketTrades ::
  "world \<Rightarrow> Client \<Rightarrow> string \<Rightarrow> (Error + MarketTrade option list) outcome \<times> call list" where
  "MarketTrades w c symbol =
     (let query = [];
          query = Values_Add query ''symbol'' symbol
      in case Client_Get w (httpClient c) (baseURL @ ''/v1/trades?'' @ Values_Encode w query) of
           (Panic pn, tr) \<Rightarrow> (Panic pn, tr)
         | (Return (Inl err), tr) \<Rightarrow> (Return (Inl (wrapRequestError err)), tr)
         | (Return (Inr resp), tr) \<Rightarrow>
             if StatusCode resp \<noteq> StatusOK then (Return (Inl (errNonOKResponse (StatusCode resp))), tr)
             else (case Decode_MarketTrades w (Body resp) of
                     Inl err \<Rightarrow> (Return (Inl (wrapRequestError err)), tr)
                   | Inr result \<Rightarrow> (Return (Inr result), tr)))"

text \<open>
  The loop of \<open>Candles\<close> over \<open>result.T\<close>: \<open>i\<close> is the index, \<open>ts\<close> what is left of
  \<open>result.T\<close>, \<open>candles\<close> the slice appended to. Indexing a slice at or beyond its length
  panics; the fields of the composite literal are evaluated in the order written.
\<close>

fun Candles_loop ::
  "udf_history \<Rightarrow> nat \<Rightarrow> int64 list \<Rightarrow> Candle option list \<Rightarrow> Candle option list outcome" where
  "Candles_loop result i [] candles = Return candles"
| "Candles_loop result i (t # ts) candles =
     (if length (hist_O result) \<le> i then Panic (IndexOutOfRange i (length (hist_O result)))
      else if length (hist_H result) \<le> i then Panic (IndexOutOfRange i (length (hist_H result)))
      else if length (hist_L result) \<le> i then Panic (IndexOutOfRange i (length (hist_L result)))
      else if length (hist_C result) \<le> i then Panic (IndexOutOfRange i (length (hist_C result)))
      else if length (hist_V result) \<le> i then Panic (IndexOutOfRange i (length (hist_V result)))
      else Candles_loop result (Suc i) ts
             (candles @ [Some \<lparr>Timestamp = Unix t 0,
                               Open = hist_O result ! i,
                               High = hist_H result ! i,
                               Low = hist_L result ! i,
                               Close = hist_C result ! i,
                               Volume = hist_V result ! i\<rparr>]))"

definition Candles ::
  "world \<Rightarrow> Client \<Rightarrow> string \<Rightarrow> string \<Rightarrow> Time \<Rightarrow> Time \<Rightarrow>
     (Error + Candle option list) outcome \<times> call list" where
  "Candles w c symbol resolution from to =
     (let query = [];
          query = Values_Add query ''symbol'' symbol;
          query = Values_Add query ''resolution'' resolution;
          query = Values_Add query ''from'' (FormatInt w (sec from) 10);
          query = Values_Add query ''to'' (FormatInt w (sec to) 10)
      in case http_Get w (baseURL @ ''/v1/udf/history?'' @ Values_Encode w query) of
           (Panic pn, tr) \<Rightarrow> (Panic pn, tr)
         | (Return (Inl err), tr) \<Rightarrow> (Return (Inl (wrapRequestError err)), tr)
         | (Return (Inr resp), tr) \<Rightarrow>
             if StatusCode resp \<noteq> 200 then (Return (Inl (errNonOKResponse (StatusCode resp))), tr)
             else (case Decode_Candles w (Body resp) of
                     Inl err \<Rightarrow> (Return (Inl (wrapRequestError err)), tr)
                   | Inr result \<Rightarrow>
                       (case Candles_loop result 0 (hist_T result) [] of
                          Panic pn \<Rightarrow> (Panic pn, tr)
                        | Return candles \<Rightarrow> (Return (Inr candles), tr))))"

section \<open>Account endpoints\<close>

definition Profile ::
  "world \<Rightarrow> Client \<Rightarrow> (Error + Profile option) outcome \<times> call list" where
  "Profile w c =
     (if apiKey c = [] then (Return (Inl ErrMissingAPIKey), [])
      else
        (case NewRequest w MethodGet (baseURL @ ''/v1/account/profile'') None of
           Inl err \<Rightarrow> (Return (Inl (wrapRequestError err)), [])
         | Inr req \<Rightarrow>
             (case Client_Do w (httpClient c) (Header_Add req apiKeyHeader (apiKey c)) of
                (Panic pn, tr) \<Rightarrow> (Panic pn, tr)
              | (Return (Inl err), tr) \<Rightarrow> (Return (Inl (wrapRequestError err)), tr)
              | (Return (Inr resp), tr) \<Rightarrow>
                  if StatusCode resp \<noteq> 200 then (Return (Inl (errNonOKResponse (StatusCode resp))), tr)
                  else (case Decode_Profile w (Body resp) of
                          Inl err \<Rightarrow> (Return (Inl (wrapRequestError err)), tr)
                        | Inr result \<Rightarrow> (Return (Inr result), tr)))))"

definition Balances ::
  "world \<Rightarrow> Client \<Rightarrow> (Error + (string \<rightharpoonup> Balance option)) outcome \<times> call list" where
  "Balances w c =
     (if apiKey c = [] then (Return (Inl ErrMissingAPIKey), [])
      else
        (case NewRequest w MethodGet (baseURL @ ''/v1/account/balances'') None of
           Inl err \<Rightarrow> (Return (Inl (wrapRequestError err)), [])
         | Inr req \<Rightarrow>
             (case Client_Do w (httpClient c) (Header_Add req apiKeyHeader (apiKey c)) of
                (Panic pn, tr) \<Rightarrow> (Panic pn, tr)
              | (Return (Inl err), tr) \<Rightarrow> (Return (Inl (wrapRequestError err)), tr)
              | (Return (Inr resp), tr) \<Rightarrow>
                  if StatusCode resp \<noteq> 200 then (Return (Inl (errNonOKResponse (StatusCode resp))), tr)
                  else (case Decode_Balances w (Body resp) of
                          Inl err \<Rightarrow> (Return (Inl (wrapRequestError err)), tr)
                        | Inr result \<Rightarrow> (Return (Inr result), tr)))))"

definition FeeLevels ::
  "world \<Rightarrow> Client \<Rightarrow> (Error + (string \<rightharpoonup> FeeLevel option)) outcome \<times> call list" where
  "FeeLevels w c =
     (if apiKey c = [] then (Return (Inl ErrMissingAPIKey), [])
      else
        (case NewRequest w MethodGet (baseURL @ ''/v1/account/fee'') None of
           Inl err \<Rightarrow> (Return (Inl (wrapRequestError err)), [])
         | Inr req \<Rightarrow>
             (case Client_Do w (httpClient c) (Header_Add req apiKeyHeader (apiKey c)) of
                (Panic pn, tr) \<Rightarrow> (Panic pn, tr)
              | (Return (Inl err), tr) \<Rightarrow> (Return (Inl (wrapRequestError err)), tr)
              | (Return (Inr resp), tr) \<Rightarrow>
                  if StatusCode resp \<noteq> 200 then (Return (Inl (errNonOKResponse (StatusCode resp))), tr)
                  else (case Decode_FeeLevels w (Body resp) of
                          Inl err \<Rightarrow> (Return (Inl (wrapRequestError err)), tr)
                        | Inr result \<Rightarrow> (Return (Inr result), tr)))))"

definition BankingCards ::
  "world \<Rightarrow> Client \<Rightarrow> (Error + BankingCard option list) outcome \<times> call list" where
  "BankingCards w c =
     (if apiKey c = [] then (Return (Inl ErrMissingAPIKey), [])
      else
        (case NewRequest w MethodGet (baseURL @ ''/v1/account/card-numbers'') None of
           Inl err \<Rightarrow> (Return (Inl (wrapRequestError err)), [])
         | Inr req \<Rightarrow>
             (case Client_Do w (httpClient c) (Header_Add req apiKeyHeader (apiKey c)) of
                (Panic pn, tr) \<Rightarrow> (Panic pn, tr)
              | (Return (Inl err), tr) \<Rightarrow> (Return (Inl (wrapRequestError err)), tr)
              | (Return (Inr resp), tr) \<Rightarrow>
                  if StatusCode resp \<noteq> 200 then (Return (Inl (errNonOKResponse (StatusCode resp))), tr)
                  else (case Decode_BankingCards w (Body resp) of
                          Inl err \<Rightarrow> (Return (Inl (wrapRequestError err)), tr)
                        | Inr result \<Rightarrow> (Return (Inr result), tr)))))"

definition BankAccounts ::
  "world \<Rightarrow> Client \<Rightarrow> (Error + BankAccount option list) outcome \<times> call list" where
  "BankAccounts w c =
     (if apiKey c = [] then (Return (Inl ErrMissingAPIKey), [])
      else
        (case NewRequest w MethodGet (baseURL @ ''/v1/account/ibans'') None of
           Inl err \<Rightarrow> (Return (Inl (wrapRequestError err)), [])
         | Inr req \<Rightarrow>
             (case Client_Do w (httpClient c) (Header_Add req apiKeyHeader (apiKey c)) of
                (Panic pn, tr) \<Rightarrow> (Panic pn, tr)
              | (Return (Inl err), tr) \<Rightarrow> (Return (Inl (wrapRequestError err)), tr)
              | (Return (Inr resp), tr) \<Rightarrow>
                  if StatusCode resp \<noteq> 200 then (Return (Inl (errNonOKResponse (StatusCode resp))), tr)
                  else (case Decode_BankAccounts w (Body resp) of
                          Inl err \<Rightarrow> (Return (Inl (wrapRequestError err)), tr)
                        | Inr result \<Rightarrow> (Return (Inr result), tr)))))"

section \<open>Orders and trades\<close>

text \<open>
  The JSON string that \<open>json.Marshal\<close> writes for a Go string (a \<open>string\<close> or a \<open>Number\<close>):
  its contents are the bytes of the string, coerced to valid UTF-8. A string of ASCII
  bytes is valid UTF-8 and is kept as it is; what becomes of any other string is the
  library's.
\<close>

definition json_string :: "world \<Rightarrow> string \<Rightarrow> json" where
  "json_string w s =
     JString (if list_all (\<lambda>c. (of_char c :: nat) < 128) s then s else ToValidUTF8 w s)"

text \<open>
  \<open>json.Marshal(p)\<close> for \<open>p *OrderParams\<close>: a \<open>nil\<close> pointer encodes as \<open>null\<close>; otherwise
  the fields are written in the order of the struct under the names of their tags, each
  as a JSON string, and the one field tagged \<open>omitempty\<close> only when it is not empty.
\<close>

definition Marshal_OrderParams :: "world \<Rightarrow> OrderParams option \<Rightarrow> json" where
  "Marshal_OrderParams w p =
     (case p of
        None \<Rightarrow> JNull
      | Some v \<Rightarrow>
          JObject
            ([(''symbol'', json_string w (OrderParams.Symbol v)),
              (''type'', json_string w (Type v)),
              (''side'', json_string w (Side v)),
              (''price'', json_string w (Price v)),
              (''quantity'', json_string w (Quantity v))]
             @ (if ClientID v = [] then [] else [(''client_id'', json_string w (ClientID v))])))"

definition PlaceOrder ::
  "world \<Rightarrow> Client \<Rightarrow> OrderParams option \<Rightarrow> (Error + Order option) outcome \<times> call list" where
  "PlaceOrder w c p =
     (if apiKey c = [] then (Return (Inl ErrMissingAPIKey), [])
      else
        (let body = Marshal_OrderParams w p in
        (case NewRequest w MethodPost (baseURL @ ''/v1/account/orders'') (Some body) of
           Inl err \<Rightarrow> (Return (Inl (wrapRequestError err)), [])
         | Inr req \<Rightarrow>
             (case Client_Do w (httpClient c) (Header_Add req apiKeyHeader (apiKey c)) of
                (Panic pn, tr) \<Rightarrow> (Panic pn, tr)
              | (Return (Inl err), tr) \<Rightarrow> (Return (Inl (wrapRequestError err)), tr)
              | (Return (Inr resp), tr) \<Rightarrow>
                  if StatusCode resp \<noteq> 200 then (Return (Inl (errNonOKResponse (StatusCode resp))), tr)
                  else (case Decode_Order w (Body resp) of
                          Inl err \<Rightarrow> (Return (Inl (wrapRequestError err)), tr)
                        | Inr result \<Rightarrow> (Return (Inr result), tr))))))"

definition CancelOrder ::
  "world \<Rightarrow> Client \<Rightarrow> string \<Rightarrow> Error option outcome \<times> call list" where
  "CancelOrder w c clientOrderID =
     (if apiKey c = [] then (Return (Some ErrMissingAPIKey), [])
      else
        (let query = [];
             query = Values_Add query ''clientOrderId'' clientOrderID
         in case NewRequest w MethodDelete (baseURL @ ''/v1/account/orders?'' @ Values_Encode w query) None of
              Inl err \<Rightarrow> (Return (Some (wrapRequestError err)), [])
            | Inr req \<Rightarrow>
                (case Client_Do w (httpClient c) (Header_Add req apiKeyHeader (apiKey c)) of
                   (Panic pn, tr) \<Rightarrow> (Panic pn, tr)
                 | (Return (Inl err), tr) \<Rightarrow> (Return (Some (wrapRequestError err)), tr)
                 | (Return (Inr resp), tr) \<Rightarrow>
                     if StatusCode resp \<noteq> 200 then (Return (Some (errNonOKResponse (StatusCode resp))), tr)
                     else (Return None, tr))))"

definition Order ::
  "world \<Rightarrow> Client \<Rightarrow> string \<Rightarrow> (Error + Order option) outcome \<times> call list" where
  "Order w c clientOrderID =
     (if apiKey c = [] then (Return (Inl ErrMissingAPIKey), [])
      else
        (case NewRequest w MethodGet (baseURL @ ''/v1/account/orders/'' @ clientOrderID) None of
           Inl err \<Rightarrow> (Return (Inl (wrapRequestError err)), [])
         | Inr req \<Rightarrow>
             (case Client_Do w (httpClient c) (Header_Add req apiKeyHeader (apiKey c)) of
                (Panic pn, tr) \<Rightarrow> (Panic pn, tr)
              | (Return (Inl err), tr) \<Rightarrow> (Return (Inl (wrapRequestError err)), tr)
              | (Return (Inr resp), tr) \<Rightarrow>
                  if StatusCode resp \<noteq> 200 then (Return (Inl (errNonOKResponse (StatusCode resp))), tr)
                  else (case Decode_Order w (Body resp) of
                          Inl err \<Rightarrow> (Return (Inl (wrapRequestError err)), tr)
                        | Inr result \<Rightarrow> (Return (Inr result), tr)))))"

definition OpenOrders ::
  "world \<Rightarrow> Client \<Rightarrow> string \<Rightarrow> (Error + Order option list) outcome \<times> call list" where
  "OpenOrders w c symbol =
     (if apiKey c = [] then (Return (Inl ErrMissingAPIKey), [])
      else
        (let query = [];
             query = (if symbol \<noteq> [] then Values_Add query ''symbol'' symbol else query) in
        (case NewRequest w MethodGet (baseURL @ ''/v1/account/openOrders?'' @ Values_Encode w query) None of
           Inl err \<Rightarrow> (Return (Inl (wrapRequestError err)), [])
         | Inr req \<Rightarrow>
             (case Client_Do w (httpClient c) (Header_Add req apiKeyHeader (apiKey c)) of
                (Panic pn, tr) \<Rightarrow> (Panic pn, tr)
              | (Return (Inl err), tr) \<Rightarrow> (Return (Inl (wrapRequestError err)), tr)
              | (Return (Inr resp), tr) \<Rightarrow>
                  if StatusCode resp \<noteq> 200 then (Return (Inl (errNonOKResponse (StatusCode resp))), tr)
                  else (case Decode_OpenOrders w (Body resp) of
                          Inl err \<Rightarrow> (Return (Inl (wrapRequestError err)), tr)
                        | Inr result \<Rightarrow> (Return (Inr result), tr))))))"

definition Trades ::
  "world \<Rightarrow> Client \<Rightarrow> string \<Rightarrow> string \<Rightarrow> (Error + Trade option list) outcome \<times> call list" where
  "Trades w c symbol side =
     (if apiKey c = [] then (Return (Inl ErrMissingAPIKey), [])
      else
        (let query = [];
             query = (if symbol \<noteq> [] then Values_Add query ''symbol'' symbol else query);
             query = (if side \<noteq> [] then Values_Add query ''side'' side else query) in
        (case NewRequest w MethodGet (baseURL @ ''/v1/account/trades?'' @ Values_Encode w query) None of
           Inl err \<Rightarrow> (Return (Inl (wrapRequestError err)), [])
         | Inr req \<Rightarrow>
             (case Client_Do w (httpClient c) (Header_Add req apiKeyHeader (apiKey c)) of
                (Panic pn, tr) \<Rightarrow> (Panic pn, tr)
              | (Return (Inl err), tr) \<Rightarrow> (Return (Inl (wrapRequestError err)), tr)
              | (Return (Inr resp), tr) \<Rightarrow>
                  if StatusCode resp \<noteq> 200 then (Return (Inl (errNonOKResponse (StatusCode resp))), tr)
                  else (case Decode_Trades w (Body resp) of
                          Inl err \<Rightarrow> (Return (Inl (wrapRequestError err)), tr)
                        | Inr result \<Rightarrow> (Return (Inr result), tr))))))"

section \<open>Notions used to state the properties\<close>

text \<open>
  The response that a call received: the answer of the transport to the one request the
  call sent, if it sent one and the transport answered.
\<close>

definition received :: "world \<Rightarrow> call list \<Rightarrow> Response option" where
  "received w tr =
     (case tr of
        [(h, req)] \<Rightarrow> (case Do w h req of Inl err \<Rightarrow> None | Inr resp \<Rightarrow> Some resp)
      | _ \<Rightarrow> None)"

text \<open>The candle that index \<open>i\<close> of the decoded arrays describes.\<close>

definition Candle_at :: "udf_history \<Rightarrow> nat \<Rightarrow> Candle option" where
  "Candle_at result i =
     Some \<lparr>Timestamp = Unix (hist_T result ! i) 0,
           Open = hist_O result ! i,
           High = hist_H result ! i,
           Low = hist_L result ! i,
           Close = hist_C result ! i,
           Volume = hist_V result ! i\<rparr>"

text \<open>The length of the shortest of the five arrays of values.\<close>

definition shortest :: "udf_history \<Rightarrow> nat" where
  "shortest result =
     min (length (hist_O result)) (min (length (hist_H result)) (min (length (hist_L result))
       (min (length (hist_C result)) (length (hist_V result)))))"




section \<open>Test doubles\<close>

text \<open>
  Stand-ins for the surroundings, for evaluating the package on concrete inputs: a
  \<open>strconv\<close> that rejects the notations the reference leaves open, a transport that
  answers every request with a given status code, decoders that return fixed values, and
  a coercion to UTF-8 that knows the one invalid string of the examples (the byte \<open>0xFF\<close>
  becomes the three bytes of U+FFFD).
\<close>

definition reject_others :: "string \<Rightarrow> float64 \<times> go_error option" where
  "reject_others s = (0, Some ErrSyntax)"

definition stub_market :: Market where
  "stub_market =
     \<lparr>Market.Symbol = ''BTCUSDT'', BaseAsset = ''BTC'', BaseAssetPrecision = 8,
      QuoteAsset = ''USDT'', QuotePrecision = 2, FarsiName = [], FarsiBaseAsset = [],
      FarsiQuoteAsset = [], StepSize = 6, TickSize = 2, MinQty = ''0.0001'',
      MinNotional = ''10'',
      Stats = \<lparr>BidPrice = ''100.5'', AskPrice = ''101'', Change24H = [], Change7D = [],
               Volume24H = [], Volume7D = [], QuoteVolume24H = [], HighPrice24H = [],
               LowPrice24H = [], LastPrice = [], LastQty = [], LastTradeSide = ''BUY'',
               BidVolume = [], AskVolume = [], BidCount = [], AskCount = [],
               Direction = \<lparr>Sell = 40, Buy = 60\<rparr>\<rparr>,
      CreatedAt = Unix 0 0\<rparr>"

definition stub_world :: "int \<Rightarrow> world" where
  "stub_world code =
     \<lparr>Getenv = (\<lambda>name. []),
      url_Parse = (\<lambda>url. None),
      Values_Encode = (\<lambda>query. concat (map (\<lambda>(k, v). k @ ''='' @ v @ ''&'') query)),
      FormatInt = (\<lambda>i base. ''0''),
      Do = (\<lambda>h req. Inr \<lparr>StatusCode = code, Body = ''{}''\<rparr>),
      range_Symbols = (\<lambda>m. case m ''BTCUSDT'' of None \<Rightarrow> [] | Some v \<Rightarrow> [(''BTCUSDT'', v)]),
      Decode_Markets = (\<lambda>b. Inr [''BTCUSDT'' \<mapsto> Some stub_market]),
      Decode_Currencies = (\<lambda>b. Inr []),
      Decode_MarketOrders = (\<lambda>b. Inr ([], [])),
      Decode_MarketTrades = (\<lambda>b. Inr []),
      Decode_Candles = (\<lambda>b. Inr \<lparr>hist_T = [60, 120], hist_O = [''1'', ''2''],
                                    hist_H = [''3'', ''4''], hist_L = [''0.5'', ''1''],
                                    hist_C = [''2'', ''3''], hist_V = [''10'', ''20'']\<rparr>),
      Decode_Profile = (\<lambda>b. Inr None),
      Decode_Balances = (\<lambda>b. Inr [''BTC'' \<mapsto> Some \<lparr>Asset = ''BTC'', FaName = [], Fiat = False,
                                                       Value = ''1.5'', Locked = ''0''\<rparr>]),
      Decode_FeeLevels = (\<lambda>b. Inr Map.empty),
      Decode_BankingCards = (\<lambda>b. Inr []),
      Decode_BankAccounts = (\<lambda>b. Inr []),
      Decode_Order = (\<lambda>b. Inr None),
      Decode_OpenOrders = (\<lambda>b. Inr []),
      Decode_Trades = (\<lambda>b. Inr []),
      ToValidUTF8 = (\<lambda>s. if s = [CHR 0xFF] then [CHR 0xEF, CHR 0xBF, CHR 0xBD] else s)\<rparr>"

text \<open>The same surroundings with a decoder for candles whose array of lows is too short.\<close>

definition short_world :: "int \<Rightarrow> world" where
  "short_world code =
     (stub_world code)
       \<lparr>Decode_Candles := (\<lambda>b. Inr \<lparr>hist_T = [60, 120], hist_O = [''1'', ''2''],
                                       hist_H = [''3'', ''4''], hist_L = [''0.5''],
                                       hist_C = [''2'', ''3''], hist_V = [''10'', ''20'']\<rparr>)\<rparr>"


definition stub_client :: Client where
  "stub_client = \<lparr>httpClient = Some (CustomClient 1), apiKey = ''xxx|xxxxx''\<rparr>"

section \<open>Properties of the reference for \<open>strconv\<close>\<close>

lemma of_char_digit_char: "d < 10 \<Longrightarrow> (of_char (digit_char d) :: nat) = 48 + d"
  by (simp add: digit_char_def)

lemma is_digit_digit_char: "d < 10 \<Longrightarrow> is_digit (digit_char d)"
  by (simp add: is_digit_def of_char_digit_char)

lemma digit_val_digit_char: "d < 10 \<Longrightarrow> digit_val (digit_char d) = d"
  by (simp add: digit_val_def of_char_digit_char)

lemma is_digit_zero: "is_digit (CHR ''0'')"
  by (simp add: is_digit_def)

lemma digit_val_zero: "digit_val (CHR ''0'') = 0"
  by (simp add: digit_val_def)

lemma is_digit_not_mark:
  "is_digit c \<Longrightarrow> c \<noteq> CHR ''.'' \<and> c \<noteq> CHR ''+'' \<and> c \<noteq> CHR ''-'' \<and> c \<noteq> CHR ''_''
     \<and> c \<noteq> CHR ''x'' \<and> c \<noteq> CHR ''X''"
  by (auto simp: is_digit_def)

lemma digits_of_nat_digits: "c \<in> set (digits_of_nat n) \<Longrightarrow> is_digit c"
proof (induction n arbitrary: c rule: digits_of_nat.induct)
  case (1 n)
  show ?case
  proof (cases "n < 10")
    case True
    with "1.prems" have "c = digit_char n"
      by (subst (asm) digits_of_nat.simps) simp
    with True show ?thesis by (simp add: is_digit_digit_char)
  next
    case False
    with "1.prems" have "c \<in> set (digits_of_nat (n div 10)) \<or> c = digit_char (n mod 10)"
      by (subst (asm) digits_of_nat.simps) auto
    with False "1.IH" show ?thesis by (auto simp: is_digit_digit_char)
  qed
qed

lemma digits_of_nat_nonempty: "digits_of_nat n \<noteq> []"
  by (subst digits_of_nat.simps) simp

lemma nat_of_digits_snoc: "nat_of_digits (ds @ [c]) = 10 * nat_of_digits ds + digit_val c"
  by (simp add: nat_of_digits_def)

lemma nat_of_digits_append:
  "nat_of_digits (xs @ ys) = nat_of_digits xs * 10 ^ length ys + nat_of_digits ys"
proof (induction ys rule: rev_induct)
  case Nil
  show ?case by (simp add: nat_of_digits_def)
next
  case (snoc y ys)
  have "nat_of_digits (xs @ ys @ [y]) = 10 * nat_of_digits (xs @ ys) + digit_val y"
    using nat_of_digits_snoc [of "xs @ ys" y] by simp
  with snoc show ?case by (simp add: nat_of_digits_snoc algebra_simps)
qed

lemma nat_of_digits_of_nat: "nat_of_digits (digits_of_nat n) = n"
proof (induction n rule: digits_of_nat.induct)
  case (1 n)
  show ?case
  proof (cases "n < 10")
    case True
    then show ?thesis
      by (subst digits_of_nat.simps) (simp add: nat_of_digits_def digit_val_digit_char)
  next
    case False
    with "1.IH" have "nat_of_digits (digits_of_nat (n div 10)) = n div 10" by simp
    with False show ?thesis
      by (subst digits_of_nat.simps) (simp add: nat_of_digits_snoc digit_val_digit_char)
  qed
qed

lemma nat_of_digits_zeros: "nat_of_digits (replicate k (CHR ''0'')) = 0"
  by (induction k) (simp_all add: nat_of_digits_def digit_val_zero)

lemma pad6_digits: "c \<in> set (pad6 n) \<Longrightarrow> is_digit c"
  by (auto simp: pad6_def is_digit_zero digits_of_nat_digits)

lemma pad6_length: "6 \<le> length (pad6 n)"
  by (simp add: pad6_def)

lemma nat_of_digits_pad6: "nat_of_digits (pad6 n) = n"
  by (simp add: pad6_def nat_of_digits_append nat_of_digits_zeros nat_of_digits_of_nat)

lemma read_sign_digits:
  assumes "\<forall>c \<in> set D. is_digit c" and "D \<noteq> []"
  shows "read_sign ((if neg then ''-'' else []) @ D @ rest) = (neg, D @ rest)"
proof (cases neg)
  case True
  then show ?thesis by (simp add: read_sign_def)
next
  case False
  from assms obtain d ds where D: "D = d # ds" and "is_digit d"
    by (cases D) auto
  then have "d \<noteq> CHR ''+''" and "d \<noteq> CHR ''-''"
    using is_digit_not_mark by blast+
  with False D show ?thesis by (simp add: read_sign_def)
qed

lemma readFloat_fixed:
  assumes D: "\<forall>c \<in> set D. is_digit c" and ne: "D \<noteq> []" and P: "\<forall>c \<in> set P. is_digit c"
  shows "readFloat ((if neg then ''-'' else []) @ D @ ''.'' @ P)
           = Some (neg, nat_of_digits (D @ P), length P, 0)"
proof -
  have dot: "\<not> is_digit (CHR ''.'')" by (simp add: is_digit_def)
  have sign: "read_sign ((if neg then ''-'' else []) @ D @ ''.'' @ P) = (neg, D @ ''.'' @ P)"
    using D ne by (rule read_sign_digits)
  have ip: "takeWhile is_digit (D @ CHR ''.'' # P) = D"
    using D dot by (simp add: takeWhile_append2)
  have s2: "dropWhile is_digit (D @ CHR ''.'' # P) = CHR ''.'' # P"
    using D dot by (simp add: dropWhile_append2)
  have fp: "takeWhile is_digit P = P"
    using P by (simp add: takeWhile_eq_all_conv)
  have s3: "dropWhile is_digit P = []"
    using P by simp
  show ?thesis
    unfolding readFloat_def sign
    by (simp add: ip s2 fp s3 ne Let_def)
qed

lemma round_half_even_le: "0 < d \<Longrightarrow> n \<le> k * d \<Longrightarrow> round_half_even n d \<le> k"
proof -
  assume d: "0 < d" and n: "n \<le> k * d"
  show ?thesis
  proof (cases "n = k * d")
    case True
    with d show ?thesis by (simp add: round_half_even_def)
  next
    case False
    with n have "n < k * d" by simp
    with d have "n div d < k" by (simp add: div_less_iff_less_mult)
    then show ?thesis by (simp add: round_half_even_def Let_def)
  qed
qed

lemma rendered_below_threshold:
  assumes "m < 2 ^ 53" and "e \<le> 2045"
  shows "round_half_even (m * 2 ^ e * 10 ^ 6) (2 ^ 1074) div 10 ^ 6 < overflow_threshold"
proof -
  let ?B = "(2 ^ 53 - 1) * 2 ^ 971 :: nat"
  have "m \<le> 2 ^ 53 - 1" using assms(1) by simp
  moreover have "(2::nat) ^ e \<le> 2 ^ 2045" using assms(2) by (intro power_increasing) simp_all
  ultimately have "m * 2 ^ e \<le> (2 ^ 53 - 1) * 2 ^ 2045" by (rule mult_mono) simp_all
  also have "(2::nat) ^ 2045 = 2 ^ 971 * 2 ^ 1074" by (simp add: power_add [symmetric])
  finally have "m * 2 ^ e * 10 ^ 6 \<le> (?B * 10 ^ 6) * 2 ^ 1074"
    by (simp add: algebra_simps)
  then have "round_half_even (m * 2 ^ e * 10 ^ 6) (2 ^ 1074) \<le> ?B * 10 ^ 6"
    by (intro round_half_even_le) simp_all
  then have "round_half_even (m * 2 ^ e * 10 ^ 6) (2 ^ 1074) div 10 ^ 6 \<le> ?B"
    by (metis div_le_mono div_mult_self_is_m zero_less_numeral zero_less_power)
  also have "?B < overflow_threshold"
  proof -
    have "?B = 2 ^ 1024 - 2 ^ 971"
      by (simp add: diff_mult_distrib power_add [symmetric])
    moreover have "(2::nat) ^ 970 < 2 ^ 971" by (simp add: power_strict_increasing)
    moreover have "(2::nat) ^ 971 < 2 ^ 1024" by (simp add: power_strict_increasing)
    ultimately show ?thesis unfolding overflow_threshold_def by linarith
  qed
  finally show ?thesis .
qed

lemma go_atof64_fixed:
  assumes a: "a < overflow_threshold" and b: "b < 10 ^ 6"
  shows "snd (go_atof64 other ((if neg then ''-'' else []) @ digits_of_nat a @ ''.'' @ pad6 b)) = None"
proof -
  let ?D = "digits_of_nat a" and ?P = "pad6 b"
  let ?s = "(if neg then ''-'' else []) @ ?D @ ''.'' @ ?P"
  have D: "\<forall>c \<in> set ?D. is_digit c" by (simp add: digits_of_nat_digits)
  have P: "\<forall>c \<in> set ?P. is_digit c" by (simp add: pad6_digits)
  have plain: "\<not> (\<exists>c \<in> set ?s. c = CHR ''_'' \<or> c = CHR ''x'' \<or> c = CHR ''X'')"
    using D P is_digit_not_mark by auto
  have rd: "readFloat ?s = Some (neg, nat_of_digits (?D @ ?P), length ?P, 0)"
    using D digits_of_nat_nonempty P by (rule readFloat_fixed)
  have mant: "nat_of_digits (?D @ ?P) = a * 10 ^ length ?P + b"
    by (simp add: nat_of_digits_append nat_of_digits_of_nat nat_of_digits_pad6)
  have "(10::nat) ^ 6 \<le> 10 ^ length ?P"
    using pad6_length by (intro power_increasing) simp_all
  with b have "b < 10 ^ length ?P" by simp
  moreover from a have "(a + 1) * 10 ^ length ?P \<le> overflow_threshold * 10 ^ length ?P"
    by (intro mult_right_mono) simp_all
  ultimately have small: "\<not> overflow_threshold * 10 ^ length ?P \<le> a * 10 ^ length ?P + b"
    by (simp add: algebra_simps)
  have len: "?P \<noteq> []"
  proof
    assume "?P = []"
    with pad6_length [of b] show False by simp
  qed
  show ?thesis
  proof (cases "special ?s")
    case None
    with plain rd mant small len show ?thesis
      by (simp add: go_atof64_def Let_def)
  next
    case (Some f)
    with plain show ?thesis by (simp add: go_atof64_def)
  qed
qed

lemma go_atof64_special:
  "snd (go_atof64 other ''NaN'') = None"
  "snd (go_atof64 other ''+Inf'') = None"
  "snd (go_atof64 other ''-Inf'') = None"
  by (simp_all add: go_atof64_def special_def read_sign_def eq_fold_def)

lemma go_Sprintf_f_nonempty: "go_Sprintf_f f \<noteq> []"
  by (simp add: go_Sprintf_f_def Let_def)

lemma go_roundtrip: "snd (ParseFloat (go_strconv other) (go_Sprintf_f f)) = None"
proof -
  define ex where "ex = unat (take_bit 11 (drop_bit 52 f))"
  define frac where "frac = unat (take_bit 52 f)"
  have "ex < 2 ^ 11"
    unfolding ex_def unsigned_take_bit_eq by (rule take_bit_nat_less_exp)
  then have ex: "ex < 2048" by simp
  have frac: "frac < 2 ^ 52"
    unfolding frac_def unsigned_take_bit_eq by (rule take_bit_nat_less_exp)
  have "snd (go_atof64 other (go_Sprintf_f f)) = None"
  proof (cases "ex = 2047")
    case True
    then show ?thesis
      unfolding go_Sprintf_f_def Let_def ex_def [symmetric] frac_def [symmetric]
      by (simp add: go_atof64_special)
  next
    case False
    define m where "m = (if ex = 0 then frac else 2 ^ 52 + frac)"
    define e where "e = (if ex = 0 then 0 else ex - 1)"
    define q where "q = round_half_even (m * 2 ^ e * 10 ^ 6) (2 ^ 1074)"
    have "m < 2 ^ 53" using frac by (simp add: m_def)
    moreover have "e \<le> 2045"
    proof -
      from ex False have "ex \<le> 2046" by linarith
      then have "ex - 1 \<le> 2045" by linarith
      then show ?thesis unfolding e_def by (cases "ex = 0") simp_all
    qed
    ultimately have "q div 10 ^ 6 < overflow_threshold"
      unfolding q_def by (rule rendered_below_threshold)
    moreover have "q mod 10 ^ 6 < 10 ^ 6" by simp
    ultimately have "snd (go_atof64 other ((if bit f 63 then ''-'' else []) @
        digits_of_nat (q div 10 ^ 6) @ ''.'' @ pad6 (q mod 10 ^ 6))) = None"
      by (rule go_atof64_fixed)
    with False show ?thesis
      unfolding go_Sprintf_f_def Let_def ex_def [symmetric] frac_def [symmetric]
        m_def [symmetric] e_def [symmetric] q_def [symmetric]
      by simp
  qed
  then show ?thesis
    by (simp add: ParseFloat_def go_strconv_def go_Sprintf_f_nonempty)
qed

text \<open>The reference on the strings of the examples, evaluated.\<close>

lemmas go_parse_defs =
  ParseFloat_def go_strconv_def go_atof64_def special_def read_sign_def eq_fold_def
  readFloat_def is_digit_def nat_of_digits_def digit_val_def overflow_threshold_def Let_def

lemma go_ParseFloat_2: "ParseFloat (go_strconv other) ''2'' = (0x4000000000000000, None)"
  by (simp add: go_parse_defs round_float64_def round_half_even_def float64_bits_def bit_len.simps)

lemma go_ParseFloat_100_5: "ParseFloat (go_strconv other) ''100.5'' = (0x4059200000000000, None)"
  by (simp add: go_parse_defs round_float64_def round_half_even_def float64_bits_def bit_len.simps)

lemma go_ParseFloat_n_a: "ParseFloat (go_strconv other) ''n/a'' = (0, Some ErrSyntax)"
  by (simp add: go_parse_defs)

lemma go_Sprintf_f_2: "go_Sprintf_f 0x4000000000000000 = ''2.000000''"
proof -
  have q: "round_half_even (2 ^ 52 * 2 ^ 1023 * 10 ^ 6) (2 ^ 1074) = 2000000"
    by (simp add: round_half_even_def Let_def)
  have "go_Sprintf_f 0x4000000000000000 =
          digits_of_nat (round_half_even (2 ^ 52 * 2 ^ 1023 * 10 ^ 6) (2 ^ 1074) div 10 ^ 6) @ ''.'' @
          pad6 (round_half_even (2 ^ 52 * 2 ^ 1023 * 10 ^ 6) (2 ^ 1074) mod 10 ^ 6)"
    unfolding go_Sprintf_f_def Let_def
    by (simp add: unsigned_take_bit_eq unsigned_drop_bit_eq bit_iff_odd_drop_bit del: power_numeral)
  also have "\<dots> = digits_of_nat 2 @ ''.'' @ pad6 0"
    unfolding q by simp
  also have "\<dots> = ''2.000000''"
  proof -
    have zeros: "replicate 5 (CHR ''0'') = ''00000''"
      by (simp add: numeral_eq_Suc)
    show ?thesis
      by (simp add: pad6_def digits_of_nat.simps digit_char_def char_of_eq_iff zeros)
  qed
  finally show ?thesis .
qed

section \<open>Properties of Number\<close>

lemma ParseFloat_ok_nonempty: "snd (ParseFloat L s) = None \<Longrightarrow> s \<noteq> []"
  by (auto simp: ParseFloat_def)

text \<open>
  Claim C2. A payload that is a JSON string whose contents \<open>strconv.ParseFloat\<close> accepts
  is stored as it is, character for character; afterwards \<open>IsUndefined\<close> is false and
  \<open>Float\<close> is the value that \<open>strconv.ParseFloat\<close> gives the string. This holds whatever
  the receiver held before and for every behaviour of \<open>strconv\<close> on non-empty strings.
\<close>

theorem UnmarshalJSON_numeric_string:
  assumes "snd (ParseFloat L s) = None"
  shows "UnmarshalJSON L n0 (Some (JString s)) = (s, None)
       \<and> \<not> IsUndefined (fst (UnmarshalJSON L n0 (Some (JString s))))
       \<and> Float L (fst (UnmarshalJSON L n0 (Some (JString s)))) = fst (ParseFloat L s)"
proof -
  have stored: "UnmarshalJSON L n0 (Some (JString s)) = (s, None)"
    using assms by (cases "ParseFloat L s") (simp add: UnmarshalJSON_def)
  moreover have "s \<noteq> []"
    using assms by (rule ParseFloat_ok_nonempty)
  ultimately show ?thesis
    by (simp add: IsUndefined_def Float_def)
qed

theorem UnmarshalJSON_numeric_string_witness:
  "snd (ParseFloat (go_strconv reject_others) ''100.5'') = None
   \<and> UnmarshalJSON (go_strconv reject_others) ''7'' (Some (JString ''100.5'')) = (''100.5'', None)
   \<and> \<not> IsUndefined (fst (UnmarshalJSON (go_strconv reject_others) ''7'' (Some (JString ''100.5''))))
   \<and> Float (go_strconv reject_others) (fst (UnmarshalJSON (go_strconv reject_others) ''7'' (Some (JString ''100.5''))))
       = 0x4059200000000000"
proof -
  have h: "snd (ParseFloat (go_strconv reject_others) ''100.5'') = None"
    by (simp add: go_ParseFloat_100_5)
  note t = UnmarshalJSON_numeric_string [OF h, of "''7''"]
  from t have u: "UnmarshalJSON (go_strconv reject_others) ''7'' (Some (JString ''100.5'')) = (''100.5'', None)"
    by blast
  from t have i: "\<not> IsUndefined (fst (UnmarshalJSON (go_strconv reject_others) ''7'' (Some (JString ''100.5''))))"
    by blast
  from t have "Float (go_strconv reject_others) (fst (UnmarshalJSON (go_strconv reject_others) ''7'' (Some (JString ''100.5''))))
       = fst (ParseFloat (go_strconv reject_others) ''100.5'')"
    by blast
  then have f: "Float (go_strconv reject_others) (fst (UnmarshalJSON (go_strconv reject_others) ''7'' (Some (JString ''100.5''))))
       = 0x4059200000000000"
    by (simp only: go_ParseFloat_100_5 fst_conv)
  show ?thesis by (intro conjI h u i f)
qed

text \<open>
  Claim C3. A payload that is a bare JSON number whose literal converts to the
  \<open>float64\<close> \<open>f\<close> is stored as \<open>fmt.Sprintf("%f", f)\<close>. Every other payload that is not a
  numeric string (bytes that are no JSON text, \<open>null\<close>, a boolean, an array, an object,
  a string that \<open>strconv.ParseFloat\<close> rejects, a number out of the range of \<open>float64\<close>)
  is stored as the empty string, for which \<open>IsUndefined\<close> is true and \<open>Float\<close> is \<open>0\<close>.
  The error returned is \<open>nil\<close> for every payload.
\<close>

theorem UnmarshalJSON_number_or_absent:
  "(\<forall>lit f. ParseFloat L lit = (f, None) \<longrightarrow>
      UnmarshalJSON L n0 (Some (JNumber lit)) = (Sprintf_f L f, None))
   \<and> (data = None \<or> data = Some JNull \<or> (\<exists>b. data = Some (JBool b))
        \<or> (\<exists>xs. data = Some (JArray xs)) \<or> (\<exists>kvs. data = Some (JObject kvs))
        \<or> (\<exists>s. data = Some (JString s) \<and> snd (ParseFloat L s) \<noteq> None)
        \<or> (\<exists>lit. data = Some (JNumber lit) \<and> snd (ParseFloat L lit) \<noteq> None) \<longrightarrow>
      fst (UnmarshalJSON L n0 data) = []
      \<and> IsUndefined (fst (UnmarshalJSON L n0 data))
      \<and> Float L (fst (UnmarshalJSON L n0 data)) = 0)
   \<and> snd (UnmarshalJSON L n0 data) = None"
proof (intro conjI allI impI)
  fix lit f assume "ParseFloat L lit = (f, None)"
  then show "UnmarshalJSON L n0 (Some (JNumber lit)) = (Sprintf_f L f, None)"
    by (simp add: UnmarshalJSON_def ErrUnmarshalType_def)
next
  assume other: "data = None \<or> data = Some JNull \<or> (\<exists>b. data = Some (JBool b))
        \<or> (\<exists>xs. data = Some (JArray xs)) \<or> (\<exists>kvs. data = Some (JObject kvs))
        \<or> (\<exists>s. data = Some (JString s) \<and> snd (ParseFloat L s) \<noteq> None)
        \<or> (\<exists>lit. data = Some (JNumber lit) \<and> snd (ParseFloat L lit) \<noteq> None)"
  have empty: "fst (UnmarshalJSON L n0 data) = []"
    using other
    by (auto simp: UnmarshalJSON_def ParseFloat_def split: prod.splits option.splits)
  then show "fst (UnmarshalJSON L n0 data) = []" .
  from empty show "IsUndefined (fst (UnmarshalJSON L n0 data))"
    by (simp add: IsUndefined_def)
  from empty show "Float L (fst (UnmarshalJSON L n0 data)) = 0"
    by (simp add: Float_def ParseFloat_def)
next
  show "snd (UnmarshalJSON L n0 data) = None"
  proof (cases data)
    case None
    then show ?thesis by (simp add: UnmarshalJSON_def)
  next
    case (Some j)
    then show ?thesis
      by (cases j) (auto simp: UnmarshalJSON_def split: prod.splits option.splits)
  qed
qed

theorem UnmarshalJSON_number_or_absent_witness:
  "ParseFloat (go_strconv reject_others) ''2'' = (0x4000000000000000, None)
   \<and> UnmarshalJSON (go_strconv reject_others) ''7'' (Some (JNumber ''2'')) = (''2.000000'', None)
   \<and> snd (ParseFloat (go_strconv reject_others) ''n/a'') \<noteq> None
   \<and> UnmarshalJSON (go_strconv reject_others) ''7'' (Some (JString ''n/a'')) = ([], None)
   \<and> IsUndefined (fst (UnmarshalJSON (go_strconv reject_others) ''7'' (Some (JString ''n/a''))))
   \<and> Float (go_strconv reject_others)
        (fst (UnmarshalJSON (go_strconv reject_others) ''7'' (Some (JString ''n/a'')))) = 0"
proof -
  have two: "ParseFloat (go_strconv reject_others) ''2'' = (0x4000000000000000, None)"
    by (rule go_ParseFloat_2)
  have na: "snd (ParseFloat (go_strconv reject_others) ''n/a'') \<noteq> None"
    by (simp add: go_ParseFloat_n_a)
  have fmt: "Sprintf_f (go_strconv reject_others) 0x4000000000000000 = ''2.000000''"
    by (simp add: go_strconv_def go_Sprintf_f_2)
  from UnmarshalJSON_number_or_absent [of "go_strconv reject_others" "''7''" "Some (JString ''n/a'')"]
    two na fmt
  show ?thesis
    by (auto simp: prod_eq_iff)
qed

lemma invariant_from_roundtrip:
  assumes "\<forall>lit f. ParseFloat L lit = (f, None) \<longrightarrow> snd (ParseFloat L (Sprintf_f L f)) = None"
  shows "(fst (UnmarshalJSON L n0 data) = []
          \<or> snd (ParseFloat L (fst (UnmarshalJSON L n0 data))) = None)
       \<and> snd (UnmarshalJSON L n0 data) = None"
proof (cases data)
  case None
  then show ?thesis by (simp add: UnmarshalJSON_def)
next
  case (Some j)
  then show ?thesis using assms
    by (cases j) (auto simp: UnmarshalJSON_def split: prod.splits option.splits)
qed

text \<open>
  Claim C7. After \<open>UnmarshalJSON\<close> the receiver is empty or a string that
  \<open>strconv.ParseFloat\<close> accepts, and the error returned is \<open>nil\<close>, for every payload and
  every earlier value of the receiver. A string is stored only after \<open>strconv.ParseFloat\<close>
  has accepted it; for a bare number the receiver is the output of \<open>fmt.Sprintf("%f", f)\<close>,
  which \<open>strconv.ParseFloat\<close> accepts for every \<open>float64\<close>. The library is the reference
  above, with any behaviour on hexadecimal notation and underscores.
\<close>

theorem Number_invariant:
  "(fst (UnmarshalJSON (go_strconv other) n0 data) = []
    \<or> snd (ParseFloat (go_strconv other) (fst (UnmarshalJSON (go_strconv other) n0 data))) = None)
   \<and> snd (UnmarshalJSON (go_strconv other) n0 data) = None"
proof (rule invariant_from_roundtrip)
  show "\<forall>lit f. ParseFloat (go_strconv other) lit = (f, None) \<longrightarrow>
          snd (ParseFloat (go_strconv other) (Sprintf_f (go_strconv other) f)) = None"
    using go_roundtrip [of other] by (simp add: go_strconv_def)
qed

theorem Number_invariant_witness:
  "fst (UnmarshalJSON (go_strconv reject_others) ''7'' (Some (JNumber ''2''))) = ''2.000000''
   \<and> snd (ParseFloat (go_strconv reject_others) ''2.000000'') = None
   \<and> snd (UnmarshalJSON (go_strconv reject_others) ''7'' (Some (JNumber ''2''))) = None"
proof -
  have stored: "fst (UnmarshalJSON (go_strconv reject_others) ''7'' (Some (JNumber ''2''))) = ''2.000000''"
    by (simp add: UnmarshalJSON_def ErrUnmarshalType_def go_ParseFloat_2)
       (simp add: go_strconv_def go_Sprintf_f_2)
  from Number_invariant [of reject_others "''7''" "Some (JNumber ''2'')"] stored
  show ?thesis by simp
qed

section \<open>Properties of the client\<close>

lemmas endpoint_defs =
  Markets_def Currencies_def MarketOrders_def MarketTrades_def Candles_def
  Profile_def Balances_def FeeLevels_def BankingCards_def BankAccounts_def
  PlaceOrder_def CancelOrder_def Order_def OpenOrders_def Trades_def

text \<open>
  Claim C1. \<open>New\<close> reads \<open>opt.APIKey\<close> only to compare it with the empty string: a key
  that is configured is never copied into the client. For every option value whose
  \<open>APIKey\<close> is not empty the client's credential is empty, so that \<open>Profile\<close> fails with
  the missing-api-key error before any request exists, and no header carries the key. The
  environment plays no part in the client built from such options.
\<close>

theorem New_drops_configured_APIKey:
  assumes "APIKey opt \<noteq> []"
  shows "apiKey (New w opt) = []
       \<and> Profile w (New w opt) = (Return (Inl ErrMissingAPIKey), [])
       \<and> New (w\<lparr>Getenv := env\<rparr>) opt = New w opt"
  using assms by (simp add: New_def Profile_def Let_def)

theorem New_drops_configured_APIKey_witness:
  "APIKey \<lparr>APIKey = ''xxx|xxxxx'', HTTPClient = None\<rparr> \<noteq> []
   \<and> apiKey (New (stub_world 200) \<lparr>APIKey = ''xxx|xxxxx'', HTTPClient = None\<rparr>) = []
   \<and> Profile (stub_world 200) (New (stub_world 200) \<lparr>APIKey = ''xxx|xxxxx'', HTTPClient = None\<rparr>)
       = (Return (Inl ErrMissingAPIKey), [])
   \<and> New (stub_world 200) \<lparr>APIKey = ''xxx|xxxxx'', HTTPClient = None\<rparr>
       = \<lparr>httpClient = Some DefaultClient, apiKey = []\<rparr>"
proof -
  have h: "APIKey \<lparr>APIKey = ''xxx|xxxxx'', HTTPClient = None\<rparr> \<noteq> []" by simp
  have c: "New (stub_world 200) \<lparr>APIKey = ''xxx|xxxxx'', HTTPClient = None\<rparr>
       = \<lparr>httpClient = Some DefaultClient, apiKey = []\<rparr>"
    by (simp add: New_def Let_def)
  from New_drops_configured_APIKey [OF h, of "stub_world 200"] h c show ?thesis by simp
qed

text \<open>
  Claim C4. When the client's credential is the empty string, each of the ten account
  methods returns the missing-api-key error and has used no transport.
\<close>

theorem missing_api_key_no_transport:
  assumes "apiKey c = []"
  shows "Profile w c = (Return (Inl ErrMissingAPIKey), [])
       \<and> Balances w c = (Return (Inl ErrMissingAPIKey), [])
       \<and> FeeLevels w c = (Return (Inl ErrMissingAPIKey), [])
       \<and> BankingCards w c = (Return (Inl ErrMissingAPIKey), [])
       \<and> BankAccounts w c = (Return (Inl ErrMissingAPIKey), [])
       \<and> PlaceOrder w c p = (Return (Inl ErrMissingAPIKey), [])
       \<and> CancelOrder w c clientOrderID = (Return (Some ErrMissingAPIKey), [])
       \<and> Order w c clientOrderID = (Return (Inl ErrMissingAPIKey), [])
       \<and> OpenOrders w c symbol = (Return (Inl ErrMissingAPIKey), [])
       \<and> Trades w c symbol side = (Return (Inl ErrMissingAPIKey), [])"
  using assms by (simp add: endpoint_defs)

theorem missing_api_key_no_transport_witness:
  "apiKey \<lparr>httpClient = Some (CustomClient 1), apiKey = []\<rparr> = []
   \<and> Profile (stub_world 200) \<lparr>httpClient = Some (CustomClient 1), apiKey = []\<rparr>
       = (Return (Inl ErrMissingAPIKey), [])
   \<and> Balances (stub_world 200) \<lparr>httpClient = Some (CustomClient 1), apiKey = []\<rparr>
       = (Return (Inl ErrMissingAPIKey), [])
   \<and> FeeLevels (stub_world 200) \<lparr>httpClient = Some (CustomClient 1), apiKey = []\<rparr>
       = (Return (Inl ErrMissingAPIKey), [])
   \<and> BankingCards (stub_world 200) \<lparr>httpClient = Some (CustomClient 1), apiKey = []\<rparr>
       = (Return (Inl ErrMissingAPIKey), [])
   \<and> BankAccounts (stub_world 200) \<lparr>httpClient = Some (CustomClient 1), apiKey = []\<rparr>
       = (Return (Inl ErrMissingAPIKey), [])
   \<and> PlaceOrder (stub_world 200) \<lparr>httpClient = Some (CustomClient 1), apiKey = []\<rparr> None
       = (Return (Inl ErrMissingAPIKey), [])
   \<and> CancelOrder (stub_world 200) \<lparr>httpClient = Some (CustomClient 1), apiKey = []\<rparr> ''42''
       = (Return (Some ErrMissingAPIKey), [])
   \<and> Order (stub_world 200) \<lparr>httpClient = Some (CustomClient 1), apiKey = []\<rparr> ''42''
       = (Return (Inl ErrMissingAPIKey), [])
   \<and> OpenOrders (stub_world 200) \<lparr>httpClient = Some (CustomClient 1), apiKey = []\<rparr> ''BTCUSDT''
       = (Return (Inl ErrMissingAPIKey), [])
   \<and> Trades (stub_world 200) \<lparr>httpClient = Some (CustomClient 1), apiKey = []\<rparr> ''BTCUSDT'' ''BUY''
       = (Return (Inl ErrMissingAPIKey), [])"
proof -
  have h: "apiKey \<lparr>httpClient = Some (CustomClient 1), apiKey = []\<rparr> = []" by simp
  from missing_api_key_no_transport [OF h, of "stub_world 200" None "''42''" "''BTCUSDT''" "''BUY''"] h
  show ?thesis by simp
qed

lemma Candles_non_OK:
  assumes "StatusCode resp \<noteq> 200"
      and "\<forall>h req. Do w h req = Inr resp"
      and "\<forall>url. url_Parse w url = None"
  shows "fst (Candles w c symbol resolution from to) = Return (Inl (errNonOKResponse (StatusCode resp)))"
  using assms by (simp add: Candles_def Client_Do_def Client_Get_def http_Get_def NewRequest_def StatusOK_def Let_def)

lemma Markets_non_OK:
  assumes "StatusCode resp \<noteq> 200"
      and "\<forall>h req. Do w h req = Inr resp"
      and "\<forall>url. url_Parse w url = None"
      and "httpClient c \<noteq> None"
  shows "fst (Markets w c) = Return (Inl (errNonOKResponse (StatusCode resp)))"
  using assms by (auto simp: Markets_def Client_Do_def Client_Get_def http_Get_def NewRequest_def StatusOK_def Let_def)

lemma Currencies_non_OK:
  assumes "StatusCode resp \<noteq> 200"
      and "\<forall>h req. Do w h req = Inr resp"
      and "\<forall>url. url_Parse w url = None"
      and "httpClient c \<noteq> None"
  shows "fst (Currencies w c) = Return (Inl (errNonOKResponse (StatusCode resp)))"
  using assms by (auto simp: Currencies_def Client_Do_def Client_Get_def http_Get_def NewRequest_def StatusOK_def Let_def)

lemma MarketOrders_non_OK:
  assumes "StatusCode resp \<noteq> 200"
      and "\<forall>h req. Do w h req = Inr resp"
      and "\<forall>url. url_Parse w url = None"
      and "httpClient c \<noteq> None"
  shows "fst (MarketOrders w c symbol) = Return (Inl (errNonOKResponse (StatusCode resp)))"
  using assms by (auto simp: MarketOrders_def Client_Do_def Client_Get_def http_Get_def NewRequest_def StatusOK_def Let_def)

lemma MarketTrades_non_OK:
  assumes "StatusCode resp \<noteq> 200"
      and "\<forall>h req. Do w h req = Inr resp"
      and "\<forall>url. url_Parse w url = None"
      and "httpClient c \<noteq> None"
  shows "fst (MarketTrades w c symbol) = Return (Inl (errNonOKResponse (StatusCode resp)))"
  using assms by (auto simp: MarketTrades_def Client_Do_def Client_Get_def http_Get_def NewRequest_def StatusOK_def Let_def)

lemma Profile_non_OK:
  assumes "StatusCode resp \<noteq> 200"
      and "\<forall>h req. Do w h req = Inr resp"
      and "\<forall>url. url_Parse w url = None"
      and "httpClient c \<noteq> None" and "apiKey c \<noteq> []"
  shows "fst (Profile w c) = Return (Inl (errNonOKResponse (StatusCode resp)))"
  using assms by (auto simp: Profile_def Client_Do_def Client_Get_def http_Get_def NewRequest_def StatusOK_def Let_def)

lemma Balances_non_OK:
  assumes "StatusCode resp \<noteq> 200"
      and "\<forall>h req. Do w h req = Inr resp"
      and "\<forall>url. url_Parse w url = None"
      and "httpClient c \<noteq> None" and "apiKey c \<noteq> []"
  shows "fst (Balances w c) = Return (Inl (errNonOKResponse (StatusCode resp)))"
  using assms by (auto simp: Balances_def Client_Do_def Client_Get_def http_Get_def NewRequest_def StatusOK_def Let_def)

lemma FeeLevels_non_OK:
  assumes "StatusCode resp \<noteq> 200"
      and "\<forall>h req. Do w h req = Inr resp"
      and "\<forall>url. url_Parse w url = None"
      and "httpClient c \<noteq> None" and "apiKey c \<noteq> []"
  shows "fst (FeeLevels w c) = Return (Inl (errNonOKResponse (StatusCode resp)))"
  using assms by (auto simp: FeeLevels_def Client_Do_def Client_Get_def http_Get_def NewRequest_def StatusOK_def Let_def)

lemma BankingCards_non_OK:
  assumes "StatusCode resp \<noteq> 200"
      and "\<forall>h req. Do w h req = Inr resp"
      and "\<forall>url. url_Parse w url = None"
      and "httpClient c \<noteq> None" and "apiKey c \<noteq> []"
  shows "fst (BankingCards w c) = Return (Inl (errNonOKResponse (StatusCode resp)))"
  using assms by (auto simp: BankingCards_def Client_Do_def Client_Get_def http_Get_def NewRequest_def StatusOK_def Let_def)

lemma BankAccounts_non_OK:
  assumes "StatusCode resp \<noteq> 200"
      and "\<forall>h req. Do w h req = Inr resp"
      and "\<forall>url. url_Parse w url = None"
      and "httpClient c \<noteq> None" and "apiKey c \<noteq> []"
  shows "fst (BankAccounts w c) = Return (Inl (errNonOKResponse (StatusCode resp)))"
  using assms by (auto simp: BankAccounts_def Client_Do_def Client_Get_def http_Get_def NewRequest_def StatusOK_def Let_def)

lemma PlaceOrder_non_OK:
  assumes "StatusCode resp \<noteq> 200"
      and "\<forall>h req. Do w h req = Inr resp"
      and "\<forall>url. url_Parse w url = None"
      and "httpClient c \<noteq> None" and "apiKey c \<noteq> []"
  shows "fst (PlaceOrder w c p) = Return (Inl (errNonOKResponse (StatusCode resp)))"
  using assms by (auto simp: PlaceOrder_def Client_Do_def Client_Get_def http_Get_def NewRequest_def StatusOK_def Let_def)

lemma CancelOrder_non_OK:
  assumes "StatusCode resp \<noteq> 200"
      and "\<forall>h req. Do w h req = Inr resp"
      and "\<forall>url. url_Parse w url = None"
      and "httpClient c \<noteq> None" and "apiKey c \<noteq> []"
  shows "fst (CancelOrder w c clientOrderID) = Return (Some (errNonOKResponse (StatusCode resp)))"
  using assms by (auto simp: CancelOrder_def Client_Do_def Client_Get_def http_Get_def NewRequest_def StatusOK_def Let_def)

lemma Order_non_OK:
  assumes "StatusCode resp \<noteq> 200"
      and "\<forall>h req. Do w h req = Inr resp"
      and "\<forall>url. url_Parse w url = None"
      and "httpClient c \<noteq> None" and "apiKey c \<noteq> []"
  shows "fst (Order w c clientOrderID) = Return (Inl (errNonOKResponse (StatusCode resp)))"
  using assms by (auto simp: Order_def Client_Do_def Client_Get_def http_Get_def NewRequest_def StatusOK_def Let_def)

lemma OpenOrders_non_OK:
  assumes "StatusCode resp \<noteq> 200"
      and "\<forall>h req. Do w h req = Inr resp"
      and "\<forall>url. url_Parse w url = None"
      and "httpClient c \<noteq> None" and "apiKey c \<noteq> []"
  shows "fst (OpenOrders w c symbol) = Return (Inl (errNonOKResponse (StatusCode resp)))"
  using assms by (auto simp: OpenOrders_def Client_Do_def Client_Get_def http_Get_def NewRequest_def StatusOK_def Let_def)

lemma Trades_non_OK:
  assumes "StatusCode resp \<noteq> 200"
      and "\<forall>h req. Do w h req = Inr resp"
      and "\<forall>url. url_Parse w url = None"
      and "httpClient c \<noteq> None" and "apiKey c \<noteq> []"
  shows "fst (Trades w c symbol side) = Return (Inl (errNonOKResponse (StatusCode resp)))"
  using assms by (auto simp: Trades_def Client_Do_def Client_Get_def http_Get_def NewRequest_def StatusOK_def Let_def)

lemma errNonOKResponse_table:
  "errNonOKResponse 400 = ErrBadRequest"
  "errNonOKResponse 401 = ErrUnauthorized"
  "errNonOKResponse 403 = ErrForbidden"
  "errNonOKResponse 404 = ErrNotFound"
  "code \<notin> {400, 401, 403, 404} \<Longrightarrow> errNonOKResponse code = ErrUnknown"
  by (simp_all add: errNonOKResponse_def StatusBadRequest_def StatusUnauthorized_def
        StatusForbidden_def StatusNotFound_def)

text \<open>
  Claim C5. Let the transport answer every request with the response \<open>resp\<close>, whose status
  code is not 200, and let every URL parse. Then each of the fifteen methods returns the
  error that \<open>errNonOKResponse\<close> assigns to the code (\<open>Candles\<close> for every client, the
  other methods for a client whose transport is not \<open>nil\<close>, the account methods for one
  that also has a credential), which is one of five package-level errors: \<open>ErrBadRequest\<close>
  for 400, \<open>ErrUnauthorized\<close> for 401, \<open>ErrForbidden\<close> for 403, \<open>ErrNotFound\<close> for 404
  and \<open>ErrUnknown\<close> for every other code. The result is a function of the status code
  alone: it is the same for every body of the response and every behaviour of the
  decoders.
\<close>

theorem non_OK_status_mapped:
  assumes "StatusCode resp \<noteq> 200"
      and "\<forall>h req. Do w h req = Inr resp"
      and "\<forall>url. url_Parse w url = None"
  shows "fst (Candles w c symbol resolution from to) = Return (Inl (errNonOKResponse (StatusCode resp)))
       \<and> (httpClient c \<noteq> None \<longrightarrow>
            fst (Markets w c) = Return (Inl (errNonOKResponse (StatusCode resp))))
       \<and> (httpClient c \<noteq> None \<longrightarrow>
            fst (Currencies w c) = Return (Inl (errNonOKResponse (StatusCode resp))))
       \<and> (httpClient c \<noteq> None \<longrightarrow>
            fst (MarketOrders w c symbol) = Return (Inl (errNonOKResponse (StatusCode resp))))
       \<and> (httpClient c \<noteq> None \<longrightarrow>
            fst (MarketTrades w c symbol) = Return (Inl (errNonOKResponse (StatusCode resp))))
       \<and> (httpClient c \<noteq> None \<and> apiKey c \<noteq> [] \<longrightarrow>
            fst (Profile w c) = Return (Inl (errNonOKResponse (StatusCode resp))))
       \<and> (httpClient c \<noteq> None \<and> apiKey c \<noteq> [] \<longrightarrow>
            fst (Balances w c) = Return (Inl (errNonOKResponse (StatusCode resp))))
       \<and> (httpClient c \<noteq> None \<and> apiKey c \<noteq> [] \<longrightarrow>
            fst (FeeLevels w c) = Return (Inl (errNonOKResponse (StatusCode resp))))
       \<and> (httpClient c \<noteq> None \<and> apiKey c \<noteq> [] \<longrightarrow>
            fst (BankingCards w c) = Return (Inl (errNonOKResponse (StatusCode resp))))
       \<and> (httpClient c \<noteq> None \<and> apiKey c \<noteq> [] \<longrightarrow>
            fst (BankAccounts w c) = Return (Inl (errNonOKResponse (StatusCode resp))))
       \<and> (httpClient c \<noteq> None \<and> apiKey c \<noteq> [] \<longrightarrow>
            fst (PlaceOrder w c p) = Return (Inl (errNonOKResponse (StatusCode resp))))
       \<and> (httpClient c \<noteq> None \<and> apiKey c \<noteq> [] \<longrightarrow>
            fst (CancelOrder w c clientOrderID) = Return (Some (errNonOKResponse (StatusCode resp))))
       \<and> (httpClient c \<noteq> None \<and> apiKey c \<noteq> [] \<longrightarrow>
            fst (Order w c clientOrderID) = Return (Inl (errNonOKResponse (StatusCode resp))))
       \<and> (httpClient c \<noteq> None \<and> apiKey c \<noteq> [] \<longrightarrow>
            fst (OpenOrders w c symbol) = Return (Inl (errNonOKResponse (StatusCode resp))))
       \<and> (httpClient c \<noteq> None \<and> apiKey c \<noteq> [] \<longrightarrow>
            fst (Trades w c symbol side) = Return (Inl (errNonOKResponse (StatusCode resp))))
       \<and> errNonOKResponse 400 = ErrBadRequest
       \<and> errNonOKResponse 401 = ErrUnauthorized
       \<and> errNonOKResponse 403 = ErrForbidden
       \<and> errNonOKResponse 404 = ErrNotFound
       \<and> (StatusCode resp \<notin> {400, 401, 403, 404} \<longrightarrow> errNonOKResponse (StatusCode resp) = ErrUnknown)"
  using assms
  by (intro conjI impI Candles_non_OK Markets_non_OK Currencies_non_OK MarketOrders_non_OK
        MarketTrades_non_OK Profile_non_OK Balances_non_OK FeeLevels_non_OK BankingCards_non_OK
        BankAccounts_non_OK PlaceOrder_non_OK CancelOrder_non_OK Order_non_OK OpenOrders_non_OK
        Trades_non_OK errNonOKResponse_table) simp_all

theorem non_OK_status_mapped_witness:
  "fst (Candles (stub_world 404) stub_client ''BTCUSDT'' ''60'' (Unix 0 0) (Unix 3600 0)) = Return (Inl ErrNotFound)
   \<and> fst (Markets (stub_world 404) stub_client) = Return (Inl ErrNotFound)
   \<and> fst (Currencies (stub_world 404) stub_client) = Return (Inl ErrNotFound)
   \<and> fst (MarketOrders (stub_world 404) stub_client ''BTCUSDT'') = Return (Inl ErrNotFound)
   \<and> fst (MarketTrades (stub_world 404) stub_client ''BTCUSDT'') = Return (Inl ErrNotFound)
   \<and> fst (Profile (stub_world 404) stub_client) = Return (Inl ErrNotFound)
   \<and> fst (Balances (stub_world 404) stub_client) = Return (Inl ErrNotFound)
   \<and> fst (FeeLevels (stub_world 404) stub_client) = Return (Inl ErrNotFound)
   \<and> fst (BankingCards (stub_world 404) stub_client) = Return (Inl ErrNotFound)
   \<and> fst (BankAccounts (stub_world 404) stub_client) = Return (Inl ErrNotFound)
   \<and> fst (PlaceOrder (stub_world 404) stub_client None) = Return (Inl ErrNotFound)
   \<and> fst (CancelOrder (stub_world 404) stub_client ''42'') = Return (Some ErrNotFound)
   \<and> fst (Order (stub_world 404) stub_client ''42'') = Return (Inl ErrNotFound)
   \<and> fst (OpenOrders (stub_world 404) stub_client ''BTCUSDT'') = Return (Inl ErrNotFound)
   \<and> fst (Trades (stub_world 404) stub_client ''BTCUSDT'' ''BUY'') = Return (Inl ErrNotFound)
   \<and> fst (Candles (stub_world 500) stub_client ''BTCUSDT'' ''60'' (Unix 0 0) (Unix 3600 0)) = Return (Inl ErrUnknown)
   \<and> fst (Markets (stub_world 500) stub_client) = Return (Inl ErrUnknown)
   \<and> fst (Currencies (stub_world 500) stub_client) = Return (Inl ErrUnknown)
   \<and> fst (MarketOrders (stub_world 500) stub_client ''BTCUSDT'') = Return (Inl ErrUnknown)
   \<and> fst (MarketTrades (stub_world 500) stub_client ''BTCUSDT'') = Return (Inl ErrUnknown)
   \<and> fst (Profile (stub_world 500) stub_client) = Return (Inl ErrUnknown)
   \<and> fst (Balances (stub_world 500) stub_client) = Return (Inl ErrUnknown)
   \<and> fst (FeeLevels (stub_world 500) stub_client) = Return (Inl ErrUnknown)
   \<and> fst (BankingCards (stub_world 500) stub_client) = Return (Inl ErrUnknown)
   \<and> fst (BankAccounts (stub_world 500) stub_client) = Return (Inl ErrUnknown)
   \<and> fst (PlaceOrder (stub_world 500) stub_client None) = Return (Inl ErrUnknown)
   \<and> fst (CancelOrder (stub_world 500) stub_client ''42'') = Return (Some ErrUnknown)
   \<and> fst (Order (stub_world 500) stub_client ''42'') = Return (Inl ErrUnknown)
   \<and> fst (OpenOrders (stub_world 500) stub_client ''BTCUSDT'') = Return (Inl ErrUnknown)
   \<and> fst (Trades (stub_world 500) stub_client ''BTCUSDT'' ''BUY'') = Return (Inl ErrUnknown)
   \<and> fst (Markets (stub_world 400) stub_client) = Return (Inl ErrBadRequest)
   \<and> fst (Profile (stub_world 400) stub_client) = Return (Inl ErrBadRequest)
   \<and> fst (Markets (stub_world 401) stub_client) = Return (Inl ErrUnauthorized)
   \<and> fst (Profile (stub_world 401) stub_client) = Return (Inl ErrUnauthorized)
   \<and> fst (Markets (stub_world 403) stub_client) = Return (Inl ErrForbidden)
   \<and> fst (Profile (stub_world 403) stub_client) = Return (Inl ErrForbidden)"
proof -
  have client: "httpClient stub_client \<noteq> None" "apiKey stub_client \<noteq> []"
    by (simp_all add: stub_client_def)
  have s400: "StatusCode \<lparr>StatusCode = 400, Body = ''{}''\<rparr> \<noteq> 200" by simp
  have t400: "\<forall>h req. Do (stub_world 400) h req = Inr \<lparr>StatusCode = 400, Body = ''{}''\<rparr>"
    by (simp add: stub_world_def)
  have u400: "\<forall>url. url_Parse (stub_world 400) url = None"
    by (simp add: stub_world_def)
  note m400 = non_OK_status_mapped
    [OF s400 t400 u400, of stub_client "''BTCUSDT''" "''60''" "Unix 0 0" "Unix 3600 0"
       None "''42''" "''BUY''"]
  have s401: "StatusCode \<lparr>StatusCode = 401, Body = ''{}''\<rparr> \<noteq> 200" by simp
  have t401: "\<forall>h req. Do (stub_world 401) h req = Inr \<lparr>StatusCode = 401, Body = ''{}''\<rparr>"
    by (simp add: stub_world_def)
  have u401: "\<forall>url. url_Parse (stub_world 401) url = None"
    by (simp add: stub_world_def)
  note m401 = non_OK_status_mapped
    [OF s401 t401 u401, of stub_client "''BTCUSDT''" "''60''" "Unix 0 0" "Unix 3600 0"
       None "''42''" "''BUY''"]
  have s403: "StatusCode \<lparr>StatusCode = 403, Body = ''{}''\<rparr> \<noteq> 200" by simp
  have t403: "\<forall>h req. Do (stub_world 403) h req = Inr \<lparr>StatusCode = 403, Body = ''{}''\<rparr>"
    by (simp add: stub_world_def)
  have u403: "\<forall>url. url_Parse (stub_world 403) url = None"
    by (simp add: stub_world_def)
  note m403 = non_OK_status_mapped
    [OF s403 t403 u403, of stub_client "''BTCUSDT''" "''60''" "Unix 0 0" "Unix 3600 0"
       None "''42''" "''BUY''"]
  have s404: "StatusCode \<lparr>StatusCode = 404, Body = ''{}''\<rparr> \<noteq> 200" by simp
  have t404: "\<forall>h req. Do (stub_world 404) h req = Inr \<lparr>StatusCode = 404, Body = ''{}''\<rparr>"
    by (simp add: stub_world_def)
  have u404: "\<forall>url. url_Parse (stub_world 404) url = None"
    by (simp add: stub_world_def)
  note m404 = non_OK_status_mapped
    [OF s404 t404 u404, of stub_client "''BTCUSDT''" "''60''" "Unix 0 0" "Unix 3600 0"
       None "''42''" "''BUY''"]
  have s500: "StatusCode \<lparr>StatusCode = 500, Body = ''{}''\<rparr> \<noteq> 200" by simp
  have t500: "\<forall>h req. Do (stub_world 500) h req = Inr \<lparr>StatusCode = 500, Body = ''{}''\<rparr>"
    by (simp add: stub_world_def)
  have u500: "\<forall>url. url_Parse (stub_world 500) url = None"
    by (simp add: stub_world_def)
  note m500 = non_OK_status_mapped
    [OF s500 t500 u500, of stub_client "''BTCUSDT''" "''60''" "Unix 0 0" "Unix 3600 0"
       None "''42''" "''BUY''"]
  from m400 m401 m403 m404 m500 client show ?thesis
    by (simp add: errNonOKResponse_table)
qed

text \<open>
  Claim C10. \<open>Candles\<close> sends its request with the package-level \<open>http.Get\<close>, that is,
  through \<open>http.DefaultClient\<close>: its result and the transport it uses are the same for
  any two clients, and every use of a transport it makes is a use of the default client.
\<close>

theorem Candles_ignores_configured_client:
  "Candles w c symbol resolution from to = Candles w c' symbol resolution from to
   \<and> (\<forall>call \<in> set (snd (Candles w c symbol resolution from to)). fst call = DefaultClient)"
  by (auto simp: Candles_def http_Get_def Client_Get_def Client_Do_def Let_def
           split: sum.splits outcome.splits prod.splits if_splits)

theorem Candles_ignores_configured_client_witness:
  "Candles (stub_world 200) \<lparr>httpClient = Some (CustomClient 1), apiKey = ''k''\<rparr>
      ''BTCUSDT'' ''60'' (Unix 0 0) (Unix 3600 0)
   = Candles (stub_world 200) \<lparr>httpClient = Some (CustomClient 2), apiKey = ''k''\<rparr>
      ''BTCUSDT'' ''60'' (Unix 0 0) (Unix 3600 0)
   \<and> map fst (snd (Candles (stub_world 200) \<lparr>httpClient = Some (CustomClient 1), apiKey = ''k''\<rparr>
      ''BTCUSDT'' ''60'' (Unix 0 0) (Unix 3600 0))) = [DefaultClient]"
proof -
  have sent: "length (snd (Candles (stub_world 200) \<lparr>httpClient = Some (CustomClient 1), apiKey = ''k''\<rparr>
      ''BTCUSDT'' ''60'' (Unix 0 0) (Unix 3600 0))) = 1"
    by (simp add: Candles_def http_Get_def Client_Get_def Client_Do_def NewRequest_def
          stub_world_def Let_def)
  from Candles_ignores_configured_client
    [of "stub_world 200" "\<lparr>httpClient = Some (CustomClient 1), apiKey = ''k''\<rparr>"
        "''BTCUSDT''" "''60''" "Unix 0 0" "Unix 3600 0"
        "\<lparr>httpClient = Some (CustomClient 2), apiKey = ''k''\<rparr>"] sent
  show ?thesis
    by (cases "snd (Candles (stub_world 200) \<lparr>httpClient = Some (CustomClient 1), apiKey = ''k''\<rparr>
      ''BTCUSDT'' ''60'' (Unix 0 0) (Unix 3600 0))") auto
qed

lemma Candles_loop_run:
  assumes "i \<le> shortest result" and "ts = drop i (hist_T result)" and "i \<le> length (hist_T result)"
  shows "Candles_loop result i ts candles =
           (if length (hist_T result) \<le> shortest result
            then Return (candles @ map (Candle_at result) [i..<length (hist_T result)])
            else Panic (IndexOutOfRange (shortest result) (shortest result)))"
  using assms
proof (induction ts arbitrary: i candles)
  case Nil
  then have "i = length (hist_T result)" by simp
  with Nil show ?case by simp
next
  case (Cons t ts)
  from Cons.prems have lt: "i < length (hist_T result)"
    by (metis drop_all le_neq_implies_less list.distinct(1) order_refl)
  from Cons.prems lt have t: "t = hist_T result ! i" and ts: "ts = drop (Suc i) (hist_T result)"
    by (metis Cons_nth_drop_Suc list.inject)+
  show ?case
  proof (cases "i < shortest result")
    case True
    then have inb: "i < length (hist_O result)" "i < length (hist_H result)"
      "i < length (hist_L result)" "i < length (hist_C result)" "i < length (hist_V result)"
      by (simp_all add: shortest_def)
    have step: "Candles_loop result i (t # ts) candles =
        Candles_loop result (Suc i) ts (candles @ [Candle_at result i])"
      using inb t by (simp add: Candle_at_def)
    have "Candles_loop result (Suc i) ts (candles @ [Candle_at result i]) =
           (if length (hist_T result) \<le> shortest result
            then Return ((candles @ [Candle_at result i]) @ map (Candle_at result) [Suc i..<length (hist_T result)])
            else Panic (IndexOutOfRange (shortest result) (shortest result)))"
      using True ts lt by (intro Cons.IH) simp_all
    with step lt show ?thesis by (simp add: upt_conv_Cons)
  next
    case False
    with Cons.prems have eq: "i = shortest result" by simp
    with lt have short: "\<not> length (hist_T result) \<le> shortest result" by simp
    have "Candles_loop result i (t # ts) candles = Panic (IndexOutOfRange i i)"
      using eq by (auto simp: shortest_def min_def split: if_splits)
    with short eq show ?thesis by simp
  qed
qed

lemma Candles_decoded:
  assumes "received w (snd (Candles w c symbol resolution from to)) = Some resp"
      and "StatusCode resp = 200"
      and "Decode_Candles w (Body resp) = Inr result"
  shows "fst (Candles w c symbol resolution from to) =
           (case Candles_loop result 0 (hist_T result) [] of
              Panic pn \<Rightarrow> Panic pn
            | Return candles \<Rightarrow> Return (Inr candles))"
  using assms
  by (auto simp: Candles_def received_def Client_Do_def Client_Get_def http_Get_def Let_def
           split: if_splits sum.splits option.splits outcome.splits prod.splits list.splits)

text \<open>
  Claim C6. Let \<open>Candles\<close> have received a response with status 200 whose body decodes
  to the arrays \<open>result\<close>. If none of the five arrays of values is shorter than \<open>result.T\<close>,
  \<open>Candles\<close> returns one candle for each index of \<open>result.T\<close>, in order, built from the
  entries of the six arrays at that index. If one of them is shorter, \<open>Candles\<close> panics
  with an index out of range, at the first index that one of the five arrays lacks (the
  length of the shortest), and returns nothing.
\<close>

theorem Candles_pairs_or_panics:
  assumes "received w (snd (Candles w c symbol resolution from to)) = Some resp"
      and "StatusCode resp = 200"
      and "Decode_Candles w (Body resp) = Inr result"
  shows "(length (hist_T result) \<le> length (hist_O result)
          \<and> length (hist_T result) \<le> length (hist_H result)
          \<and> length (hist_T result) \<le> length (hist_L result)
          \<and> length (hist_T result) \<le> length (hist_C result)
          \<and> length (hist_T result) \<le> length (hist_V result) \<longrightarrow>
            fst (Candles w c symbol resolution from to) =
              Return (Inr (map (\<lambda>i. Some \<lparr>Timestamp = Unix (hist_T result ! i) 0,
                                            Open = hist_O result ! i,
                                            High = hist_H result ! i,
                                            Low = hist_L result ! i,
                                            Close = hist_C result ! i,
                                            Volume = hist_V result ! i\<rparr>)
                                [0..<length (hist_T result)])))
       \<and> (length (hist_O result) < length (hist_T result)
          \<or> length (hist_H result) < length (hist_T result)
          \<or> length (hist_L result) < length (hist_T result)
          \<or> length (hist_C result) < length (hist_T result)
          \<or> length (hist_V result) < length (hist_T result) \<longrightarrow>
            fst (Candles w c symbol resolution from to) =
              Panic (IndexOutOfRange (shortest result) (shortest result))
            \<and> shortest result < length (hist_T result))"
proof -
  have run: "Candles_loop result 0 (hist_T result) [] =
           (if length (hist_T result) \<le> shortest result
            then Return (map (Candle_at result) [0..<length (hist_T result)])
            else Panic (IndexOutOfRange (shortest result) (shortest result)))"
    using Candles_loop_run [of 0 result "hist_T result" "[]"] by simp
  have at: "Candle_at result = (\<lambda>i. Some \<lparr>Timestamp = Unix (hist_T result ! i) 0,
                                            Open = hist_O result ! i,
                                            High = hist_H result ! i,
                                            Low = hist_L result ! i,
                                            Close = hist_C result ! i,
                                            Volume = hist_V result ! i\<rparr>)"
    by (rule ext) (simp add: Candle_at_def)
  show ?thesis
    unfolding Candles_decoded [OF assms] run at [symmetric]
    by (auto simp: shortest_def min_def)
qed

theorem Candles_pairs_or_panics_witness:
  "received (stub_world 200)
      (snd (Candles (stub_world 200) stub_client ''BTCUSDT'' ''60'' (Unix 0 0) (Unix 3600 0)))
     = Some \<lparr>StatusCode = 200, Body = ''{}''\<rparr>
   \<and> fst (Candles (stub_world 200) stub_client ''BTCUSDT'' ''60'' (Unix 0 0) (Unix 3600 0))
     = Return (Inr [Some \<lparr>Timestamp = Unix 60 0, Open = ''1'', High = ''3'', Low = ''0.5'',
                           Close = ''2'', Volume = ''10''\<rparr>,
                    Some \<lparr>Timestamp = Unix 120 0, Open = ''2'', High = ''4'', Low = ''1'',
                           Close = ''3'', Volume = ''20''\<rparr>])
   \<and> received (short_world 200)
      (snd (Candles (short_world 200) stub_client ''BTCUSDT'' ''60'' (Unix 0 0) (Unix 3600 0)))
     = Some \<lparr>StatusCode = 200, Body = ''{}''\<rparr>
   \<and> fst (Candles (short_world 200) stub_client ''BTCUSDT'' ''60'' (Unix 0 0) (Unix 3600 0))
     = Panic (IndexOutOfRange 1 1)"
proof -
  let ?full = "\<lparr>hist_T = [60, 120], hist_O = [''1'', ''2''], hist_H = [''3'', ''4''],
                hist_L = [''0.5'', ''1''], hist_C = [''2'', ''3''], hist_V = [''10'', ''20'']\<rparr>"
  let ?short = "\<lparr>hist_T = [60, 120], hist_O = [''1'', ''2''], hist_H = [''3'', ''4''],
                 hist_L = [''0.5''], hist_C = [''2'', ''3''], hist_V = [''10'', ''20'']\<rparr>"
  let ?resp = "\<lparr>StatusCode = 200, Body = ''{}''\<rparr>"
  have r1: "received (stub_world 200)
      (snd (Candles (stub_world 200) stub_client ''BTCUSDT'' ''60'' (Unix 0 0) (Unix 3600 0)))
     = Some ?resp"
    by (simp add: Candles_def received_def http_Get_def Client_Get_def Client_Do_def
          NewRequest_def stub_world_def Let_def)
  have r2: "received (short_world 200)
      (snd (Candles (short_world 200) stub_client ''BTCUSDT'' ''60'' (Unix 0 0) (Unix 3600 0)))
     = Some ?resp"
    by (simp add: Candles_def received_def http_Get_def Client_Get_def Client_Do_def
          NewRequest_def short_world_def stub_world_def Let_def)
  have s: "StatusCode ?resp = 200" by simp
  have d1: "Decode_Candles (stub_world 200) (Body ?resp) = Inr ?full"
    by (simp add: stub_world_def)
  have d2: "Decode_Candles (short_world 200) (Body ?resp) = Inr ?short"
    by (simp add: short_world_def stub_world_def)
  have upt2: "[0..<2] = [0, Suc 0]" by (simp add: upt_rec)
  from Candles_pairs_or_panics [OF r1 s d1] Candles_pairs_or_panics [OF r2 s d2] r1 r2
  show ?thesis by (simp add: shortest_def upt2)
qed





lemma range_values:
  assumes "distinct (map fst kvs)"
  shows "map snd kvs = map (\<lambda>k. the (map_of kvs k)) (map fst kvs)"
proof -
  have "snd kv = the (map_of kvs (fst kv))" if "kv \<in> set kvs" for kv
  proof -
    from that have "(fst kv, snd kv) \<in> set kvs" by simp
    with assms have "map_of kvs (fst kv) = Some (snd kv)" by (simp only: map_of_eq_Some_iff)
    then show ?thesis by simp
  qed
  then have "map snd kvs = map (\<lambda>kv. the (map_of kvs (fst kv))) kvs"
    by (intro map_cong refl)
  then show ?thesis by (simp only: map_map comp_def)
qed

lemma Markets_decoded:
  assumes "received w (snd (Markets w c)) = Some resp"
      and "StatusCode resp = 200"
      and "Decode_Markets w (Body resp) = Inr m"
  shows "fst (Markets w c) = Return (Inr (map snd (range_Symbols w m)))"
  using assms
  by (auto simp: Markets_def received_def Client_Do_def Client_Get_def StatusOK_def
           split: if_splits sum.splits option.splits outcome.splits prod.splits list.splits)

lemma Balances_decoded:
  assumes "received w (snd (Balances w c)) = Some resp"
      and "StatusCode resp = 200"
      and "Decode_Balances w (Body resp) = Inr b"
  shows "fst (Balances w c) = Return (Inr b)"
  using assms
  by (auto simp: Balances_def received_def Client_Do_def
           split: if_splits sum.splits option.splits outcome.splits prod.splits list.splits)

lemma distinct_singleton_set:
  assumes "distinct ks" and "set ks = {k}"
  shows "ks = [k]"
proof -
  have "length ks = card (set ks)" using assms(1) by (simp only: distinct_card)
  with assms(2) have len: "length ks = 1" by simp
  then obtain x where x: "ks = [x]" by (cases ks) simp_all
  with assms(2) have "x = k" by simp
  with x show ?thesis by simp
qed

text \<open>
  Claim C9. Let \<open>Markets\<close> have received a response with status 200 whose body decodes
  to the map \<open>m\<close> of symbols, and let the runtime's walk over \<open>m\<close> visit every entry once.
  Then \<open>Markets\<close> returns the values of \<open>m\<close>, one for each key, in the order of some
  enumeration of the keys without repetition; for a map with the single key \<open>BTCUSDT\<close> it
  returns the one-element list of that key's value. \<open>Balances\<close>, for a response with status
  200 whose body decodes to the map \<open>b\<close>, returns \<open>b\<close> itself.
\<close>

theorem Markets_flattens_Balances_keeps:
  "(received w (snd (Markets w c)) = Some resp \<and> StatusCode resp = 200
      \<and> Decode_Markets w (Body resp) = Inr m
      \<and> distinct (map fst (range_Symbols w m)) \<and> map_of (range_Symbols w m) = m \<longrightarrow>
      (\<exists>ks. distinct ks \<and> set ks = dom m
           \<and> fst (Markets w c) = Return (Inr (map (\<lambda>k. the (m k)) ks)))
      \<and> (\<forall>v. m = [''BTCUSDT'' \<mapsto> v] \<longrightarrow> fst (Markets w c) = Return (Inr [v])))
   \<and> (received w (snd (Balances w c)) = Some resp' \<and> StatusCode resp' = 200
      \<and> Decode_Balances w (Body resp') = Inr b \<longrightarrow>
      fst (Balances w c) = Return (Inr b))"
proof (intro conjI impI allI)
  assume a: "received w (snd (Markets w c)) = Some resp \<and> StatusCode resp = 200
      \<and> Decode_Markets w (Body resp) = Inr m
      \<and> distinct (map fst (range_Symbols w m)) \<and> map_of (range_Symbols w m) = m"
  define kvs where "kvs = range_Symbols w m"
  from a have 1: "received w (snd (Markets w c)) = Some resp" by blast
  from a have 2: "StatusCode resp = 200" by blast
  from a have 3: "Decode_Markets w (Body resp) = Inr m" by blast
  from a have d: "distinct (map fst kvs)" unfolding kvs_def by blast
  from a have mo: "map_of kvs = m" unfolding kvs_def by blast
  have r: "fst (Markets w c) = Return (Inr (map snd kvs))"
    unfolding kvs_def by (rule Markets_decoded [OF 1 2 3])
  have vals: "map snd kvs = map (\<lambda>k. the (m k)) (map fst kvs)"
    using range_values [OF d] unfolding mo .
  have keys: "set (map fst kvs) = dom m"
    unfolding mo [symmetric] by (simp add: dom_map_of_conv_image_fst)
  from d keys r vals
  show "\<exists>ks. distinct ks \<and> set ks = dom m
           \<and> fst (Markets w c) = Return (Inr (map (\<lambda>k. the (m k)) ks))"
    by (intro exI [of _ "map fst kvs"]) simp
  fix v assume single: "m = [''BTCUSDT'' \<mapsto> v]"
  with keys have "set (map fst kvs) = {''BTCUSDT''}" by simp
  with d have "map fst kvs = [''BTCUSDT'']" by (rule distinct_singleton_set)
  with vals single have "map snd kvs = [v]" by simp
  with r show "fst (Markets w c) = Return (Inr [v])" by simp
next
  assume a: "received w (snd (Balances w c)) = Some resp' \<and> StatusCode resp' = 200
      \<and> Decode_Balances w (Body resp') = Inr b"
  from a have 1: "received w (snd (Balances w c)) = Some resp'" by blast
  from a have 2: "StatusCode resp' = 200" by blast
  from a have 3: "Decode_Balances w (Body resp') = Inr b" by blast
  show "fst (Balances w c) = Return (Inr b)"
    by (rule Balances_decoded [OF 1 2 3])
qed

theorem Markets_flattens_Balances_keeps_witness:
  "received (stub_world 200) (snd (Markets (stub_world 200) stub_client))
     = Some \<lparr>StatusCode = 200, Body = ''{}''\<rparr>
   \<and> Decode_Markets (stub_world 200) ''{}'' = Inr [''BTCUSDT'' \<mapsto> Some stub_market]
   \<and> fst (Markets (stub_world 200) stub_client) = Return (Inr [Some stub_market])
   \<and> Market.Symbol stub_market = ''BTCUSDT''
   \<and> received (stub_world 200) (snd (Balances (stub_world 200) stub_client))
     = Some \<lparr>StatusCode = 200, Body = ''{}''\<rparr>
   \<and> fst (Balances (stub_world 200) stub_client)
     = Return (Inr [''BTC'' \<mapsto> Some \<lparr>Asset = ''BTC'', FaName = [], Fiat = False,
                                        Value = ''1.5'', Locked = ''0''\<rparr>])"
proof -
  let ?resp = "\<lparr>StatusCode = 200, Body = ''{}''\<rparr>"
  let ?m = "[''BTCUSDT'' \<mapsto> Some stub_market]"
  let ?b = "[''BTC'' \<mapsto> Some \<lparr>Asset = ''BTC'', FaName = [], Fiat = False,
                                        Value = ''1.5'', Locked = ''0''\<rparr>]"
  have r1: "received (stub_world 200) (snd (Markets (stub_world 200) stub_client)) = Some ?resp"
    by (simp add: Markets_def received_def Client_Get_def Client_Do_def NewRequest_def
          stub_world_def stub_client_def StatusOK_def)
  have r2: "received (stub_world 200) (snd (Balances (stub_world 200) stub_client)) = Some ?resp"
    by (simp add: Balances_def received_def Client_Do_def NewRequest_def Header_Add_def
          stub_world_def stub_client_def)
  have d1: "Decode_Markets (stub_world 200) (Body ?resp) = Inr ?m"
    by (simp add: stub_world_def)
  have d2: "Decode_Balances (stub_world 200) (Body ?resp) = Inr ?b"
    by (simp add: stub_world_def)
  have rg: "range_Symbols (stub_world 200) ?m = [(''BTCUSDT'', Some stub_market)]"
    by (simp add: stub_world_def)
  have walk: "distinct (map fst (range_Symbols (stub_world 200) ?m))
              \<and> map_of (range_Symbols (stub_world 200) ?m) = ?m"
    unfolding rg by simp
  have sym: "Market.Symbol stub_market = ''BTCUSDT''" by (simp add: stub_market_def)
  from Markets_flattens_Balances_keeps
    [of "stub_world 200" stub_client ?resp ?m ?resp ?b] r1 r2 d1 d2 walk sym
  show ?thesis by simp
qed

end
